theory Spec2Isabelle
  imports Complex_Main
begin

section \<open>Python values shared by both modules\<close>

text \<open>
  Exceptions are values. Only the built-in errors that the modelled code can reach
  through indexing, dictionary lookup and weighted choice are needed.
\<close>

datatype py_error = IndexError | KeyError | ValueError

text \<open>
  \<^verbatim>\<open>random.choice(seq)\<close> raises \<^verbatim>\<open>IndexError\<close> on an empty sequence and otherwise
  returns one element. The random draw is an explicit argument \<open>r\<close>; reducing it modulo the
  length makes every draw select an element and every element selectable.
\<close>

definition random_choice :: "'a list \<Rightarrow> nat \<Rightarrow> py_error + 'a" where
  "random_choice xs r = (if xs = [] then Inl IndexError else Inr (xs ! (r mod length xs)))"

section \<open>The instance runner (main.py)\<close>

subsection \<open>StepResult and InstanceState\<close>

datatype StepResult = StepResult (step: string) (step_status: string) (detail: string)

text \<open>
  The dataclass \<^verbatim>\<open>InstanceState\<close>. The field \<^verbatim>\<open>id\<close> is called \<open>inst_id\<close> here, because
  \<open>id\<close> is the identity function of HOL. Python integers are unbounded, hence \<open>int\<close>; the
  two float fields only store clock readings and are real numbers.
\<close>

record InstanceState =
  inst_id :: int
  runs :: int
  successes :: int
  failures :: int
  current_step :: string
  last_url :: string
  last_detail :: string
  status :: string
  started_at :: real
  last_duration :: real

text \<open>
  \<^verbatim>\<open>InstanceState(id=i)\<close>: every other field takes its declared default; the default factory
  of \<^verbatim>\<open>started_at\<close> reads the clock, whose value is the argument \<open>now\<close>.
\<close>

definition new_InstanceState :: "int \<Rightarrow> real \<Rightarrow> InstanceState" where
  "new_InstanceState i now =
     \<lparr>inst_id = i, runs = 0, successes = 0, failures = 0, current_step = ''idle'',
      last_url = '''', last_detail = '''', status = ''idle'', started_at = now,
      last_duration = 0\<rparr>"

subsection \<open>One pass of \<^verbatim>\<open>runner_task\<close>\<close>

text \<open>
  What \<^verbatim>\<open>await run_once(...)\<close> does as seen from the loop: it returns its list of step
  results, or raises an \<^verbatim>\<open>Exception\<close> \<open>e\<close> (carried here as \<^verbatim>\<open>str(e)\<close>), or is left by an
  exception that is not an \<^verbatim>\<open>Exception\<close> (task cancellation), which
  \<^verbatim>\<open>except Exception\<close> does not catch.
\<close>

datatype run_outcome = Returned "StepResult list" | Raised string | Cancelled

text \<open>
  Everything one pass takes from its environment: the random draw of \<^verbatim>\<open>pick_url\<close>, the
  reading of \<^verbatim>\<open>time.time()\<close>, the last label \<^verbatim>\<open>run_once\<close> wrote into
  \<^verbatim>\<open>state.current_step\<close> (the only field it assigns), the outcome of \<^verbatim>\<open>run_once\<close>, and
  whether the task is cancelled during the sleep that ends the pass.
\<close>

record pass_env =
  url_draw :: nat
  clock :: real
  run_step :: "string option"
  outcome :: run_outcome
  sleep_cancelled :: bool

text \<open>
  A pass either reaches the end of the loop body, after sleeping the given number of
  seconds, or is left by a propagating exception. Both carry the counter
  \<^verbatim>\<open>total_done\<close> and the instance state.
\<close>

datatype pass_result = Continue real int InstanceState | Stopped int InstanceState

definition pass_begin :: "InstanceState \<Rightarrow> InstanceState" where
  "pass_begin st = st\<lparr>status := ''running'', current_step := ''pick url''\<rparr>"

definition pass_success :: "StepResult list \<Rightarrow> InstanceState \<Rightarrow> InstanceState" where
  "pass_success results st =
     st\<lparr>runs := runs st + 1, successes := successes st + 1,
        last_detail := (if results \<noteq> [] then detail (last results) else ''''),
        status := ''idle'', current_step := ''sleep 1s''\<rparr>"

definition pass_failure :: "string \<Rightarrow> InstanceState \<Rightarrow> InstanceState" where
  "pass_failure msg st =
     st\<lparr>runs := runs st + 1, failures := failures st + 1,
        status := ''error/restarting'', last_detail := take 100 msg,
        current_step := ''error recovery''\<rparr>"

text \<open>
  The body of \<^verbatim>\<open>while True\<close>. \<^verbatim>\<open>pick_url\<close> runs before the \<^verbatim>\<open>try\<close>, so its
  \<^verbatim>\<open>IndexError\<close> on an empty URL list leaves the loop.
\<close>

definition runner_pass ::
  "string list \<Rightarrow> pass_env \<Rightarrow> int \<Rightarrow> InstanceState \<Rightarrow> pass_result" where
  "runner_pass urls_list env td st =
     (let st1 = pass_begin st in
      case random_choice urls_list (url_draw env) of
        Inl e \<Rightarrow> Stopped td st1
      | Inr url \<Rightarrow>
          (let st2 = st1\<lparr>last_url := url, started_at := clock env\<rparr>;
               st3 = (case run_step env of None \<Rightarrow> st2 | Some l \<Rightarrow> st2\<lparr>current_step := l\<rparr>)
           in case outcome env of
                Returned results \<Rightarrow>
                  (let st4 = pass_success results st3 in
                   if sleep_cancelled env then Stopped (td + 1) st4
                   else Continue 1 (td + 1) st4)
              | Raised msg \<Rightarrow>
                  (let st4 = pass_failure msg st3 in
                   if sleep_cancelled env then Stopped td st4 else Continue 2 td st4)
              | Cancelled \<Rightarrow> Stopped td st3))"

subsection \<open>The loop\<close>

text \<open>
  \<^verbatim>\<open>while True\<close> has no exit of its own, so the loop is a partial function: the value
  \<open>None\<close> means that it never returns, \<open>Some\<close> carries the state in which a propagating
  exception left it. Pass number \<open>k\<close> takes its environment from \<open>envs k\<close>.
\<close>

partial_function (option) runner_loop ::
  "string list \<Rightarrow> (nat \<Rightarrow> pass_env) \<Rightarrow> nat \<Rightarrow> int \<Rightarrow> InstanceState
     \<Rightarrow> (int \<times> InstanceState) option" where
  "runner_loop urls_list envs k td st =
     (case runner_pass urls_list (envs k) td st of
        Continue d td' st' \<Rightarrow> runner_loop urls_list envs (Suc k) td' st'
      | Stopped td' st' \<Rightarrow> Some (td', st'))"

text \<open>
  \<^verbatim>\<open>runner_task\<close>: a start delay of \<^verbatim>\<open>state.id * 0.5\<close> seconds, during which the task
  may already be cancelled, and then the loop.
\<close>

definition runner_task ::
  "string list \<Rightarrow> bool \<Rightarrow> (nat \<Rightarrow> pass_env) \<Rightarrow> int \<Rightarrow> InstanceState
     \<Rightarrow> (int \<times> InstanceState) option" where
  "runner_task urls_list cancelled_at_start envs td st =
     (if cancelled_at_start then Some (td, st) else runner_loop urls_list envs 0 td st)"

text \<open>
  The state at the head of the loop before pass \<open>n\<close>, when the loop gets that far.
\<close>

fun loop_head ::
  "string list \<Rightarrow> (nat \<Rightarrow> pass_env) \<Rightarrow> nat \<Rightarrow> int \<Rightarrow> InstanceState
     \<Rightarrow> (int \<times> InstanceState) option" where
  "loop_head urls_list envs 0 td st = Some (td, st)"
| "loop_head urls_list envs (Suc n) td st =
     (case loop_head urls_list envs n td st of
        None \<Rightarrow> None
      | Some (td', st') \<Rightarrow>
          (case runner_pass urls_list (envs n) td' st' of
             Continue d td'' st'' \<Rightarrow> Some (td'', st'')
           | Stopped td'' st'' \<Rightarrow> None))"

subsection \<open>Python string operations used at start-up\<close>

text \<open>
  Strings are lists of 8-bit characters, so the model covers code points below 256.
  Among these, \<^verbatim>\<open>str.isspace\<close> holds for the characters 9 to 13, 28 to 32, 133 and 160,
  and \<^verbatim>\<open>str.splitlines\<close> breaks at 10, 11, 12, 13 (with 13 10 as one break), 28, 29, 30
  and 133.
\<close>

definition isspace :: "char \<Rightarrow> bool" where
  "isspace c \<longleftrightarrow>
     c \<in> set [CHR 0x09, CHR 0x0A, CHR 0x0B, CHR 0x0C, CHR 0x0D, CHR 0x1C, CHR 0x1D,
              CHR 0x1E, CHR 0x1F, CHR 0x20, CHR 0x85, CHR 0xA0]"

definition strip :: "string \<Rightarrow> string" where
  "strip s = rev (dropWhile isspace (rev (dropWhile isspace s)))"

definition is_linebreak :: "char \<Rightarrow> bool" where
  "is_linebreak c \<longleftrightarrow>
     c \<in> set [CHR 0x0A, CHR 0x0B, CHR 0x0C, CHR 0x0D, CHR 0x1C, CHR 0x1D, CHR 0x1E, CHR 0x85]"

text \<open>
  \<^verbatim>\<open>splitlines\<close> with the current line accumulated in reverse: a break ends the line,
  and a last line is produced only when characters follow the last break.
\<close>

fun splitlines_from :: "string \<Rightarrow> string \<Rightarrow> string list" where
  "splitlines_from acc [] = (if acc = [] then [] else [rev acc])"
| "splitlines_from acc (c # cs) =
     (if c = CHR 0x0D then
        (case cs of
           [] \<Rightarrow> [rev acc]
         | d # ds \<Rightarrow>
             if d = CHR 0x0A then rev acc # splitlines_from [] ds
             else rev acc # splitlines_from [] (d # ds))
      else if is_linebreak c then rev acc # splitlines_from [] cs
      else splitlines_from (c # acc) cs)"

definition splitlines :: "string \<Rightarrow> string list" where
  "splitlines s = splitlines_from [] s"

text \<open>
  \<^verbatim>\<open>int(s)\<close> in base 10: surrounding whitespace is ignored, one sign may lead, and
  single underscores may stand between digits. \<open>None\<close> is \<^verbatim>\<open>ValueError\<close>.

  The whitespace \<^verbatim>\<open>int\<close> ignores is not that of \<^verbatim>\<open>str.isspace\<close>: below 256 it is the
  characters 9 to 13, 32, 133 and 160, and not 28 to 31. A numeral with more than
  \<^verbatim>\<open>sys.get_int_max_str_digits()\<close> digits, 4300 unless changed (and \<^verbatim>\<open>main\<close> does not
  change it), is refused with \<^verbatim>\<open>ValueError\<close> as well; the count takes every digit,
  leading zeros included, and neither the sign nor the underscores.
\<close>

definition int_space :: "char \<Rightarrow> bool" where
  "int_space c \<longleftrightarrow>
     c \<in> set [CHR 0x09, CHR 0x0A, CHR 0x0B, CHR 0x0C, CHR 0x0D, CHR 0x20, CHR 0x85, CHR 0xA0]"

definition int_max_str_digits :: nat where
  "int_max_str_digits = 4300"

definition is_digit :: "char \<Rightarrow> bool" where
  "is_digit c \<longleftrightarrow> c \<in> set ''0123456789''"

definition digit_val :: "char \<Rightarrow> int" where
  "digit_val c = int (of_char c) - 48"

fun parse_digits :: "int \<Rightarrow> string \<Rightarrow> int option" where
  "parse_digits acc [] = Some acc"
| "parse_digits acc (c # cs) =
     (if is_digit c then parse_digits (10 * acc + digit_val c) cs
      else if c = CHR ''_'' then
        (case cs of
           [] \<Rightarrow> None
         | d # ds \<Rightarrow> if is_digit d then parse_digits (10 * acc + digit_val d) ds else None)
      else None)"

definition parse_unsigned :: "string \<Rightarrow> int option" where
  "parse_unsigned s =
     (case s of [] \<Rightarrow> None
      | c # cs \<Rightarrow>
          if is_digit c then
            (if int_max_str_digits < length (filter is_digit s) then None
             else parse_digits (digit_val c) cs)
          else None)"

definition py_int :: "string \<Rightarrow> int option" where
  "py_int s =
     (case rev (dropWhile int_space (rev (dropWhile int_space s))) of
        [] \<Rightarrow> None
      | c # cs \<Rightarrow>
          if c = CHR ''-'' then map_option uminus (parse_unsigned cs)
          else if c = CHR ''+'' then parse_unsigned cs
          else parse_unsigned (c # cs))"

text \<open>\<^verbatim>\<open>str(n)\<close> for an integer: its decimal digits, with a minus sign when negative.\<close>

definition digit_char :: "nat \<Rightarrow> char" where
  "digit_char d = ''0123456789'' ! d"

fun digits_of :: "nat \<Rightarrow> string" where
  "digits_of n = (if n < 10 then [digit_char n] else digits_of (n div 10) @ [digit_char (n mod 10)])"

declare digits_of.simps [simp del]

definition str_int :: "int \<Rightarrow> string" where
  "str_int i = (if i < 0 then CHR ''-'' # digits_of (nat (- i)) else digits_of (nat i))"

subsection \<open>Start-up of \<^verbatim>\<open>main\<close>\<close>

text \<open>
  What the terminal shows and what is started, in order. \<open>Print\<close> carries the text given
  to \<^verbatim>\<open>console.print\<close>, \<open>Prompt\<close> the text given to \<^verbatim>\<open>console.input\<close>.
\<close>

datatype event = Print string | Prompt string | LaunchBrowser | InstallBrowsers

text \<open>
  The answer to the prompt: a line of text, an \<^verbatim>\<open>Exception\<close> raised by
  \<^verbatim>\<open>console.input\<close> (end of input), or a keyboard interrupt.
\<close>

datatype prompt_reply = Typed string | InputFailed | Interrupted

text \<open>
  The environment of one start: the outcome of reading \<^verbatim>\<open>urls.txt\<close> (\<open>Inl\<close> the message
  of the exception, \<open>Inr\<close> the text), the answer to the prompt, the clock reading taken
  when state \<open>i\<close> is created, and for the start of the browser driver and the two launch
  attempts the message of the exception raised, if any.
\<close>

record main_env =
  url_file :: "string + string"
  reply :: prompt_reply
  state_clock :: "nat \<Rightarrow> real"
  driver_failure :: "string option"
  launch_failure :: "string option"
  relaunch_failure :: "string option"

text \<open>
  How the start ends: \<^verbatim>\<open>sys.exit(n)\<close>, an exception that nothing catches, a keyboard
  interrupt (caught by the \<^verbatim>\<open>__main__\<close> block), or the runners started over the URL list
  with one state each.
\<close>

datatype main_result =
  SysExit int | Uncaught string | KeyboardInterrupt | Started "string list" "InstanceState list"

text \<open>
  The block that sets \<^verbatim>\<open>INSTANCES\<close>: any exception, the \<^verbatim>\<open>ValueError\<close> of \<^verbatim>\<open>int\<close> and
  the one raised for a number outside 1 to 50 included, gives 1.
\<close>

definition choose_instances :: "prompt_reply \<Rightarrow> int" where
  "choose_instances r =
     (case r of
        Typed user_in \<Rightarrow>
          (case py_int (strip user_in) of
             None \<Rightarrow> 1
           | Some n \<Rightarrow> if n < 1 \<or> n > 50 then 1 else n)
      | _ \<Rightarrow> 1)"

definition launch_browser :: "main_env \<Rightarrow> event list \<times> string option" where
  "launch_browser env =
     (case launch_failure env of
        None \<Rightarrow>
          ([Print ''[yellow]Launching browser...[/yellow]'', LaunchBrowser,
            Print ''[green]Browser launched successfully![/green]''], None)
      | Some e \<Rightarrow>
          ([Print ''[yellow]Launching browser...[/yellow]'', LaunchBrowser,
            Print ''[yellow]Installing Playwright browsers...[/yellow]'', InstallBrowsers,
            LaunchBrowser], relaunch_failure env))"

definition main_startup :: "main_env \<Rightarrow> event list \<times> main_result" where
  "main_startup env =
     (case url_file env of
        Inl e \<Rightarrow> ([Print (''[bold red]Failed to read URL file:[/bold red] '' @ e)], SysExit 1)
      | Inr text \<Rightarrow>
          (let urls_list = map strip (filter (\<lambda>ln. strip ln \<noteq> []) (splitlines text)) in
           if urls_list = [] then
             ([Print ''[bold red]No URLs found in the file[/bold red]''], SysExit 1)
           else
             (let ask = Prompt ''[bold cyan]How many instances to run (1-50)? [/bold cyan]'' in
              if reply env = Interrupted then ([ask], KeyboardInterrupt)
              else
                (let INSTANCES = choose_instances (reply env);
                     states = map (\<lambda>i. new_InstanceState (int i + 1) (state_clock env i))
                                [0..<nat INSTANCES]
                 in case driver_failure env of
                      Some e \<Rightarrow> ([ask], Uncaught e)
                    | None \<Rightarrow>
                        (case launch_browser env of
                           (evs, Some e) \<Rightarrow> (ask # evs, Uncaught e)
                         | (evs, None) \<Rightarrow> (ask # evs, Started urls_list states))))))"

text \<open>
  The exit status of the process: the argument of \<^verbatim>\<open>sys.exit\<close>, 1 for an uncaught
  exception, 0 after the keyboard interrupt that \<^verbatim>\<open>__main__\<close> swallows; none while the
  runners and the dashboard are running.
\<close>

definition exit_code :: "main_result \<Rightarrow> int option" where
  "exit_code r =
     (case r of
        SysExit n \<Rightarrow> Some n
      | Uncaught e \<Rightarrow> Some 1
      | KeyboardInterrupt \<Rightarrow> Some 0
      | Started urls_list states \<Rightarrow> None)"

section \<open>The profile generator (fingerprints.py)\<close>

subsection \<open>Values, dictionaries and randomness\<close>

text \<open>
  Sequencing of computations that may raise: the first error ends the computation.
\<close>

definition bind_err :: "py_error + 'a \<Rightarrow> ('a \<Rightarrow> py_error + 'b) \<Rightarrow> py_error + 'b" where
  "bind_err m f = (case m of Inl e \<Rightarrow> Inl e | Inr x \<Rightarrow> f x)"

text \<open>
  \<^verbatim>\<open>xs[i]\<close> on a list, with Python's negative indices, and \<^verbatim>\<open>d[k]\<close> on a dictionary. A
  dictionary is an association list in insertion order.
\<close>

definition list_index :: "'a list \<Rightarrow> int \<Rightarrow> py_error + 'a" where
  "list_index xs i =
     (if 0 \<le> i \<and> i < int (length xs) then Inr (xs ! nat i)
      else if i < 0 \<and> - int (length xs) \<le> i then Inr (xs ! nat (int (length xs) + i))
      else Inl IndexError)"

definition dict_item :: "(string \<times> 'v) list \<Rightarrow> string \<Rightarrow> py_error + 'v" where
  "dict_item d k = (case map_of d k of None \<Rightarrow> Inl KeyError | Some v \<Rightarrow> Inr v)"

fun dict_set :: "(string \<times> 'v) list \<Rightarrow> string \<Rightarrow> 'v \<Rightarrow> (string \<times> 'v) list" where
  "dict_set [] k v = [(k, v)]"
| "dict_set ((k', v') # d) k v = (if k' = k then (k, v) # d else (k', v') # dict_set d k v)"

definition dict_update ::
  "(string \<times> 'v) list \<Rightarrow> (string \<times> 'v) list \<Rightarrow> (string \<times> 'v) list" where
  "dict_update d e = foldl (\<lambda>acc (k, v). dict_set acc k v) d e"

text \<open>\<^verbatim>\<open>sub in s\<close> for strings, \<^verbatim>\<open>s.split(sep)\<close> for a one-character separator.\<close>

fun startswith :: "string \<Rightarrow> string \<Rightarrow> bool" where
  "startswith s [] = True"
| "startswith [] (p # ps) = False"
| "startswith (c # cs) (p # ps) = (c = p \<and> startswith cs ps)"

fun str_in :: "string \<Rightarrow> string \<Rightarrow> bool" where
  "str_in sub [] = (sub = [])"
| "str_in sub (c # cs) = (startswith (c # cs) sub \<or> str_in sub cs)"

fun split_from :: "char \<Rightarrow> string \<Rightarrow> string \<Rightarrow> string list" where
  "split_from sep acc [] = [rev acc]"
| "split_from sep acc (c # cs) =
     (if c = sep then rev acc # split_from sep [] cs else split_from sep (c # acc) cs)"

definition split :: "string \<Rightarrow> char \<Rightarrow> string list" where
  "split s sep = split_from sep [] s"

text \<open>
  The random draws are arguments. \<^verbatim>\<open>random.uniform(a, b)\<close> is \<^verbatim>\<open>a + (b - a) * random()\<close>
  with \<open>u\<close> the value of \<^verbatim>\<open>random()\<close>, over the reals; \<^verbatim>\<open>random.randint(a, b)\<close> takes a
  raw draw \<open>r\<close> into the range from \<open>a\<close> to \<open>b\<close>.
\<close>

definition uniform :: "real \<Rightarrow> real \<Rightarrow> real \<Rightarrow> real" where
  "uniform a b u = a + (b - a) * u"

definition randint :: "int \<Rightarrow> int \<Rightarrow> nat \<Rightarrow> int" where
  "randint a b r = a + int (r mod nat (b - a + 1))"

text \<open>
  \<^verbatim>\<open>random.choices(population, weights=..., k=1)[0]\<close> for integer weights: the draw \<open>r\<close>
  is a point below the total weight, and the element whose cumulative weight first
  exceeds it is chosen. (\<^verbatim>\<open>random.choices\<close> raises \<^verbatim>\<open>ValueError\<close> when the total is not
  positive, \<^verbatim>\<open>IndexError\<close> on an empty population.)
\<close>

fun weighted_pick :: "'a list \<Rightarrow> nat list \<Rightarrow> nat \<Rightarrow> 'a option" where
  "weighted_pick (x # xs) (w # ws) p = (if p < w then Some x else weighted_pick xs ws (p - w))"
| "weighted_pick xs ws p = None"

definition random_choices_one :: "'a list \<Rightarrow> nat list \<Rightarrow> nat \<Rightarrow> py_error + 'a" where
  "random_choices_one population weights r =
     (if population = [] then Inl IndexError
      else if sum_list weights = 0 then Inl ValueError
      else case weighted_pick population weights (r mod sum_list weights) of
             None \<Rightarrow> Inl ValueError
           | Some x \<Rightarrow> Inr x)"

text \<open>
  All the randomness one call of \<^verbatim>\<open>random_profile\<close> consumes: the draws for the device
  type, the device, the locale, the colour scheme and the motion preference, and the
  streams from which \<^verbatim>\<open>generate_advanced_behavioral_patterns\<close> takes its \<^verbatim>\<open>uniform\<close>
  values and its integer draws.
\<close>

record rng =
  device_type_draw :: nat
  device_draw :: nat
  locale_draw :: nat
  color_draw :: nat
  motion_draw :: nat
  unit_draws :: "nat \<Rightarrow> real"
  int_draws :: "nat \<Rightarrow> nat"

text \<open>
  The two JavaScript texts are fixed literals of several hundred lines. A script is
  represented by its template and the values interpolated into it: the stealth script
  has six holes (canvas fingerprint, the four WebGL strings, the last six characters
  of the audio fingerprint), the evasion script has none.
\<close>

datatype js_text =
  StealthScript string string string string string string
  | ModernEvasionScript

datatype pyval =
  PBool bool | PInt int | PFloat real | PStr string | PJs js_text
  | PList "pyval list" | PDict "(string \<times> pyval) list"

subsection \<open>DeviceProfile and the dictionaries built from it\<close>

datatype DeviceProfile =
  DeviceProfile (user_agent: string) (viewport: "(string \<times> int) list")
    (device_scale_factor: real) (is_mobile: bool) (has_touch: bool) (platform: string)
    (device_memory: int) (hardware_concurrency: int) (max_touch_points: int)

text \<open>
  The generators take a dictionary and read it with \<^verbatim>\<open>.get(key, default)\<close>. Every
  dictionary they are given is a literal over \<^verbatim>\<open>DeviceProfile\<close> fields, so a dictionary is
  the optional value of each of these keys, typed as the field is; \<open>None\<close> is an absent
  key.
\<close>

record device_dict =
  platform_key :: "string option"
  is_mobile_key :: "bool option"
  device_memory_key :: "int option"
  hardware_concurrency_key :: "int option"
  user_agent_key :: "string option"
  max_touch_points_key :: "int option"
  viewport_key :: "(string \<times> int) list option"

definition no_keys :: device_dict where
  "no_keys = \<lparr>platform_key = None, is_mobile_key = None, device_memory_key = None,
      hardware_concurrency_key = None, user_agent_key = None, max_touch_points_key = None,
      viewport_key = None\<rparr>"

definition dict_get :: "'a option \<Rightarrow> 'a \<Rightarrow> 'a" where
  "dict_get entry dflt = (case entry of None \<Rightarrow> dflt | Some v \<Rightarrow> v)"

subsection \<open>The fingerprint generators\<close>

text \<open>
  \<^verbatim>\<open>hashlib.md5(s.encode()).hexdigest()\<close> is the parameter \<open>md5\<close>, a function from
  strings to strings.
\<close>

definition generate_canvas_fingerprint :: "(string \<Rightarrow> string) \<Rightarrow> device_dict \<Rightarrow> string" where
  "generate_canvas_fingerprint md5 device_profile =
     (let device_string =
            dict_get (platform_key device_profile) ''Win32'' @ ''_''
            @ str_int (dict_get (device_memory_key device_profile) 8) @ ''_''
            @ str_int (dict_get (hardware_concurrency_key device_profile) 4)
      in md5 device_string)"

definition webgl_dict :: "string \<Rightarrow> string \<Rightarrow> (string \<times> string) list" where
  "webgl_dict vendor renderer =
     [(''vendor'', vendor), (''renderer'', renderer), (''version'', ''WebGL 1.0''),
      (''shading_language_version'', ''WebGL GLSL ES 1.0'')]"

definition gpu_options :: "(string \<times> string) list list" where
  "gpu_options =
     [[(''vendor'', ''NVIDIA Corporation''), (''renderer'', ''NVIDIA GeForce RTX 3060'')],
      [(''vendor'', ''Intel''), (''renderer'', ''Intel(R) UHD Graphics 630'')],
      [(''vendor'', ''AMD''), (''renderer'', ''AMD Radeon RX 580'')]]"

definition generate_webgl_fingerprint :: "device_dict \<Rightarrow> py_error + (string \<times> string) list" where
  "generate_webgl_fingerprint device_profile =
     (let platform = dict_get (platform_key device_profile) ''Win32'';
          is_mobile = dict_get (is_mobile_key device_profile) False;
          device_memory = dict_get (device_memory_key device_profile) 8
      in if is_mobile then
           (if str_in ''iPhone'' platform then Inr (webgl_dict ''Apple Inc.'' ''Apple GPU'')
            else Inr (webgl_dict ''Qualcomm'' ''Adreno (TM) 640''))
         else
           (if str_in ''Mac'' platform then
              Inr (webgl_dict ''Intel Inc.'' ''Intel(R) Iris(TM) Plus Graphics'')
            else if str_in ''Linux'' platform then
              Inr (webgl_dict ''Mesa'' ''Mesa DRI Intel(R) UHD Graphics'')
            else
              bind_err (list_index gpu_options (device_memory mod int (length gpu_options)))
                (\<lambda>gpu. bind_err (dict_item gpu ''vendor'')
                  (\<lambda>vendor. bind_err (dict_item gpu ''renderer'')
                    (\<lambda>renderer. Inr (webgl_dict vendor renderer))))))"

definition base_fonts :: "string list" where
  "base_fonts =
     [''Arial'', ''Helvetica'', ''Times'', ''Times New Roman'', ''Courier'', ''Courier New'',
      ''Verdana'', ''Georgia'', ''Palatino'', ''Garamond'', ''Bookman'', ''Comic Sans MS'',
      ''Trebuchet MS'', ''Arial Black'', ''Impact'']"

definition generate_fonts_list :: "string \<Rightarrow> string list" where
  "generate_fonts_list plat =
     (if str_in ''Win32'' plat then
        base_fonts @ [''Calibri'', ''Cambria'', ''Consolas'', ''Constantia'', ''Corbel'',
                      ''Candara'', ''Segoe UI'', ''Tahoma'', ''MS Sans Serif'', ''MS Serif'']
      else if str_in ''Mac'' plat then
        base_fonts @ [''Monaco'', ''Menlo'', ''SF Pro Display'', ''SF Pro Text'',
                      ''Helvetica Neue'', ''Lucida Grande'', ''Apple Symbols'', ''Marker Felt'']
      else
        base_fonts @ [''Ubuntu'', ''DejaVu Sans'', ''Liberation Sans'', ''Droid Sans'',
                      ''Noto Sans'', ''FreeSans'', ''FreeMono''])"

text \<open>
  \<^verbatim>\<open>create_stealth_scripts\<close>. It also computes the JSON text of the font list, which the
  template never uses. \<^verbatim>\<open>audio_fp[-6:]\<close> is the last six characters, or the whole string
  when it is shorter.
\<close>

definition create_stealth_scripts ::
  "(string \<Rightarrow> string) \<Rightarrow> device_dict \<Rightarrow> py_error + js_text" where
  "create_stealth_scripts md5 device_profile =
     (let canvas_fp = generate_canvas_fingerprint md5 device_profile in
      bind_err (generate_webgl_fingerprint device_profile)
        (\<lambda>webgl_fp.
           let audio_fp = md5 (dict_get (platform_key device_profile) ''Win32'' @ ''_audio'') in
           bind_err (dict_item webgl_fp ''vendor'')
             (\<lambda>vendor. bind_err (dict_item webgl_fp ''renderer'')
               (\<lambda>renderer. bind_err (dict_item webgl_fp ''version'')
                 (\<lambda>version. bind_err (dict_item webgl_fp ''shading_language_version'')
                   (\<lambda>shading.
                      Inr (StealthScript canvas_fp vendor renderer version shading
                             (drop (length audio_fp - 6) audio_fp))))))))"

definition DESKTOP_PROFILES :: "DeviceProfile list" where
  "DESKTOP_PROFILES = [
     DeviceProfile ''Mozilla/5.0 (Windows NT 10.0; Win64; x64) AppleWebKit/537.36 (KHTML, like Gecko) Chrome/127.0.0.0 Safari/537.36''
       [(''width'', 1920), (''height'', 1080)] 1.0 False False ''Win32'' 8 8 0,
     DeviceProfile ''Mozilla/5.0 (Windows NT 10.0; Win64; x64) AppleWebKit/537.36 (KHTML, like Gecko) Chrome/126.0.0.0 Safari/537.36''
       [(''width'', 1366), (''height'', 768)] 1.0 False False ''Win32'' 4 4 0,
     DeviceProfile ''Mozilla/5.0 (Windows NT 10.0; Win64; x64) AppleWebKit/537.36 (KHTML, like Gecko) Chrome/125.0.0.0 Safari/537.36''
       [(''width'', 1440), (''height'', 900)] 1.0 False False ''Win32'' 8 6 0,
     DeviceProfile ''Mozilla/5.0 (Windows NT 10.0; Win64; x64) AppleWebKit/537.36 (KHTML, like Gecko) Chrome/124.0.0.0 Safari/537.36''
       [(''width'', 1536), (''height'', 864)] 1.25 False False ''Win32'' 16 8 0,
     DeviceProfile ''Mozilla/5.0 (Windows NT 10.0; Win64; x64) AppleWebKit/537.36 (KHTML, like Gecko) Chrome/123.0.0.0 Safari/537.36''
       [(''width'', 1600), (''height'', 900)] 1.0 False False ''Win32'' 8 4 0,
     DeviceProfile ''Mozilla/5.0 (Windows NT 10.0; Win64; x64) AppleWebKit/537.36 (KHTML, like Gecko) Chrome/122.0.0.0 Safari/537.36''
       [(''width'', 1280), (''height'', 720)] 1.0 False False ''Win32'' 4 2 0,
     DeviceProfile ''Mozilla/5.0 (Windows NT 10.0; Win64; x64) AppleWebKit/537.36 (KHTML, like Gecko) Chrome/121.0.0.0 Safari/537.36''
       [(''width'', 1680), (''height'', 1050)] 1.0 False False ''Win32'' 16 6 0,
     DeviceProfile ''Mozilla/5.0 (Windows NT 10.0; Win64; x64) AppleWebKit/537.36 (KHTML, like Gecko) Chrome/120.0.0.0 Safari/537.36''
       [(''width'', 1768), (''height'', 992)] 1.25 False False ''Win32'' 32 12 0,
     DeviceProfile ''Mozilla/5.0 (Windows NT 10.0; Win64; x64) AppleWebKit/537.36 (KHTML, like Gecko) Chrome/119.0.0.0 Safari/537.36''
       [(''width'', 2048), (''height'', 1152)] 1.5 False False ''Win32'' 16 8 0,
     DeviceProfile ''Mozilla/5.0 (Windows NT 10.0; Win64; x64) AppleWebKit/537.36 (KHTML, like Gecko) Chrome/118.0.0.0 Safari/537.36''
       [(''width'', 1344), (''height'', 840)] 1.0 False False ''Win32'' 8 4 0,
     DeviceProfile ''Mozilla/5.0 (Windows NT 11.0; Win64; x64) AppleWebKit/537.36 (KHTML, like Gecko) Chrome/127.0.0.0 Safari/537.36''
       [(''width'', 2560), (''height'', 1440)] 1.25 False False ''Win32'' 16 12 0,
     DeviceProfile ''Mozilla/5.0 (Windows NT 11.0; Win64; x64) AppleWebKit/537.36 (KHTML, like Gecko) Chrome/126.0.0.0 Safari/537.36''
       [(''width'', 1920), (''height'', 1080)] 1.0 False False ''Win32'' 32 16 0,
     DeviceProfile ''Mozilla/5.0 (Windows NT 11.0; Win64; x64) AppleWebKit/537.36 (KHTML, like Gecko) Chrome/125.0.0.0 Safari/537.36''
       [(''width'', 3440), (''height'', 1440)] 1.0 False False ''Win32'' 64 24 0,
     DeviceProfile ''Mozilla/5.0 (Windows NT 11.0; Win64; x64) AppleWebKit/537.36 (KHTML, like Gecko) Chrome/124.0.0.0 Safari/537.36''
       [(''width'', 1366), (''height'', 768)] 1.0 False False ''Win32'' 8 6 0,
     DeviceProfile ''Mozilla/5.0 (Windows NT 11.0; Win64; x64) AppleWebKit/537.36 (KHTML, like Gecko) Chrome/123.0.0.0 Safari/537.36''
       [(''width'', 1600), (''height'', 1024)] 1.0 False False ''Win32'' 16 8 0,
     DeviceProfile ''Mozilla/5.0 (Windows NT 10.0; Win64; x64) AppleWebKit/537.36 (KHTML, like Gecko) Chrome/127.0.0.0 Safari/537.36 Edg/127.0.0.0''
       [(''width'', 1920), (''height'', 1080)] 1.0 False False ''Win32'' 8 8 0,
     DeviceProfile ''Mozilla/5.0 (Windows NT 11.0; Win64; x64) AppleWebKit/537.36 (KHTML, like Gecko) Chrome/126.0.0.0 Safari/537.36 Edg/126.0.0.0''
       [(''width'', 1728), (''height'', 1117)] 1.5 False False ''Win32'' 16 10 0,
     DeviceProfile ''Mozilla/5.0 (Windows NT 10.0; Win64; x64) AppleWebKit/537.36 (KHTML, like Gecko) Chrome/125.0.0.0 Safari/537.36 Edg/125.0.0.0''
       [(''width'', 1440), (''height'', 900)] 1.0 False False ''Win32'' 8 4 0,
     DeviceProfile ''Mozilla/5.0 (Windows NT 11.0; Win64; x64) AppleWebKit/537.36 (KHTML, like Gecko) Chrome/124.0.0.0 Safari/537.36 Edg/124.0.0.0''
       [(''width'', 2560), (''height'', 1440)] 1.25 False False ''Win32'' 32 12 0,
     DeviceProfile ''Mozilla/5.0 (Windows NT 10.0; Win64; x64) AppleWebKit/537.36 (KHTML, like Gecko) Chrome/123.0.0.0 Safari/537.36 Edg/123.0.0.0''
       [(''width'', 1366), (''height'', 768)] 1.0 False False ''Win32'' 4 4 0,
     DeviceProfile ''Mozilla/5.0 (Windows NT 10.0; Win64; x64; rv:127.0) Gecko/20100101 Firefox/127.0''
       [(''width'', 1920), (''height'', 1080)] 1.0 False False ''Win32'' 8 8 0,
     DeviceProfile ''Mozilla/5.0 (Windows NT 11.0; Win64; x64; rv:126.0) Gecko/20100101 Firefox/126.0''
       [(''width'', 1366), (''height'', 768)] 1.0 False False ''Win32'' 16 6 0,
     DeviceProfile ''Mozilla/5.0 (Windows NT 10.0; Win64; x64; rv:125.0) Gecko/20100101 Firefox/125.0''
       [(''width'', 1440), (''height'', 900)] 1.0 False False ''Win32'' 8 4 0,
     DeviceProfile ''Mozilla/5.0 (Windows NT 11.0; Win64; x64; rv:124.0) Gecko/20100101 Firefox/124.0''
       [(''width'', 2560), (''height'', 1440)] 1.25 False False ''Win32'' 32 16 0,
     DeviceProfile ''Mozilla/5.0 (Macintosh; Intel Mac OS X 10_15_7) AppleWebKit/537.36 (KHTML, like Gecko) Chrome/127.0.0.0 Safari/537.36''
       [(''width'', 1728), (''height'', 1117)] 2.0 False False ''MacIntel'' 8 8 0,
     DeviceProfile ''Mozilla/5.0 (Macintosh; Intel Mac OS X 10_14_6) AppleWebKit/537.36 (KHTML, like Gecko) Chrome/126.0.0.0 Safari/537.36''
       [(''width'', 1680), (''height'', 1050)] 1.0 False False ''MacIntel'' 8 4 0,
     DeviceProfile ''Mozilla/5.0 (Macintosh; Intel Mac OS X 10_15_7) AppleWebKit/537.36 (KHTML, like Gecko) Chrome/125.0.0.0 Safari/537.36''
       [(''width'', 1440), (''height'', 900)] 2.0 False False ''MacIntel'' 32 16 0,
     DeviceProfile ''Mozilla/5.0 (Macintosh; Intel Mac OS X 10_13_6) AppleWebKit/537.36 (KHTML, like Gecko) Chrome/124.0.0.0 Safari/537.36''
       [(''width'', 1280), (''height'', 800)] 1.0 False False ''MacIntel'' 4 4 0,
     DeviceProfile ''Mozilla/5.0 (Macintosh; Intel Mac OS X 10_15_7) AppleWebKit/537.36 (KHTML, like Gecko) Chrome/123.0.0.0 Safari/537.36''
       [(''width'', 2560), (''height'', 1600)] 2.0 False False ''MacIntel'' 16 8 0,
     DeviceProfile ''Mozilla/5.0 (Macintosh; Intel Mac OS X 10_15_7) AppleWebKit/605.1.15 (KHTML, like Gecko) Version/17.6 Safari/605.1.15''
       [(''width'', 1512), (''height'', 982)] 2.0 False False ''MacIntel'' 16 10 0,
     DeviceProfile ''Mozilla/5.0 (Macintosh; Intel Mac OS X 10_14_6) AppleWebKit/605.1.15 (KHTML, like Gecko) Version/16.6 Safari/605.1.15''
       [(''width'', 1680), (''height'', 1050)] 1.0 False False ''MacIntel'' 8 4 0,
     DeviceProfile ''Mozilla/5.0 (Macintosh; Intel Mac OS X 10_15_7) AppleWebKit/605.1.15 (KHTML, like Gecko) Version/17.5 Safari/605.1.15''
       [(''width'', 1440), (''height'', 900)] 2.0 False False ''MacIntel'' 32 16 0,
     DeviceProfile ''Mozilla/5.0 (Macintosh; Intel Mac OS X 10.15; rv:127.0) Gecko/20100101 Firefox/127.0''
       [(''width'', 1728), (''height'', 1117)] 2.0 False False ''MacIntel'' 8 8 0,
     DeviceProfile ''Mozilla/5.0 (Macintosh; Intel Mac OS X 10.14; rv:126.0) Gecko/20100101 Firefox/126.0''
       [(''width'', 1680), (''height'', 1050)] 1.0 False False ''MacIntel'' 8 4 0,
     DeviceProfile ''Mozilla/5.0 (X11; Linux x86_64) AppleWebKit/537.36 (KHTML, like Gecko) Chrome/127.0.0.0 Safari/537.36''
       [(''width'', 1920), (''height'', 1080)] 1.0 False False ''Linux x86_64'' 8 8 0,
     DeviceProfile ''Mozilla/5.0 (X11; Linux x86_64) AppleWebKit/537.36 (KHTML, like Gecko) Chrome/126.0.0.0 Safari/537.36''
       [(''width'', 2560), (''height'', 1440)] 1.0 False False ''Linux x86_64'' 16 12 0,
     DeviceProfile ''Mozilla/5.0 (X11; Linux x86_64) AppleWebKit/537.36 (KHTML, like Gecko) Chrome/125.0.0.0 Safari/537.36''
       [(''width'', 1366), (''height'', 768)] 1.0 False False ''Linux x86_64'' 4 4 0,
     DeviceProfile ''Mozilla/5.0 (X11; Ubuntu; Linux x86_64; rv:127.0) Gecko/20100101 Firefox/127.0''
       [(''width'', 1366), (''height'', 768)] 1.0 False False ''Linux x86_64'' 4 4 0,
     DeviceProfile ''Mozilla/5.0 (X11; Ubuntu; Linux x86_64; rv:126.0) Gecko/20100101 Firefox/126.0''
       [(''width'', 1920), (''height'', 1080)] 1.0 False False ''Linux x86_64'' 8 8 0,
     DeviceProfile ''Mozilla/5.0 (Windows NT 10.0; Win64; x64) AppleWebKit/537.36 (KHTML, like Gecko) Chrome/131.0.0.0 Safari/537.36''
       [(''width'', 3840), (''height'', 2160)] 1.25 False False ''Win32'' 24 64 0,
     DeviceProfile ''Mozilla/5.0 (Windows NT 10.0; Win64; x64) AppleWebKit/537.36 (KHTML, like Gecko) Chrome/130.0.0.0 Safari/537.36''
       [(''width'', 5120), (''height'', 2880)] 2.0 False False ''Win32'' 32 128 0,
     DeviceProfile ''Mozilla/5.0 (Windows NT 10.0; Win64; x64) AppleWebKit/537.36 (KHTML, like Gecko) Chrome/129.0.0.0 Safari/537.36''
       [(''width'', 7680), (''height'', 4320)] 1.5 False False ''Win32'' 64 256 0,
     DeviceProfile ''Mozilla/5.0 (Windows NT 10.0; Win64; x64) AppleWebKit/537.36 (KHTML, like Gecko) Chrome/128.0.0.0 Safari/537.36''
       [(''width'', 2560), (''height'', 1440)] 1.0 False False ''Win32'' 16 32 0,
     DeviceProfile ''Mozilla/5.0 (Windows NT 10.0; Win64; x64) AppleWebKit/537.36 (KHTML, like Gecko) Chrome/127.0.0.0 Safari/537.36''
       [(''width'', 3440), (''height'', 1440)] 1.0 False False ''Win32'' 20 48 0,
     DeviceProfile ''Mozilla/5.0 (Windows NT 10.0; Win64; x64) AppleWebKit/537.36 (KHTML, like Gecko) Chrome/126.0.0.0 Safari/537.36''
       [(''width'', 2560), (''height'', 1440)] 1.25 False False ''Win32'' 12 32 0,
     DeviceProfile ''Mozilla/5.0 (Windows NT 10.0; Win64; x64) AppleWebKit/537.36 (KHTML, like Gecko) Chrome/125.0.0.0 Safari/537.36''
       [(''width'', 1920), (''height'', 1080)] 1.0 False False ''Win32'' 8 16 0,
     DeviceProfile ''Mozilla/5.0 (Windows NT 10.0; Win64; x64) AppleWebKit/537.36 (KHTML, like Gecko) Chrome/124.0.0.0 Safari/537.36''
       [(''width'', 3840), (''height'', 2160)] 1.0 False False ''Win32'' 16 32 0,
     DeviceProfile ''Mozilla/5.0 (Windows NT 10.0; Win64; x64) AppleWebKit/537.36 (KHTML, like Gecko) Chrome/123.0.0.0 Safari/537.36''
       [(''width'', 2560), (''height'', 1440)] 1.25 False False ''Win32'' 24 64 0,
     DeviceProfile ''Mozilla/5.0 (Windows NT 10.0; Win64; x64) AppleWebKit/537.36 (KHTML, like Gecko) Chrome/122.0.0.0 Safari/537.36''
       [(''width'', 1920), (''height'', 1080)] 1.0 False False ''Win32'' 12 16 0,
     DeviceProfile ''Mozilla/5.0 (Windows NT 10.0; Win64; x64) AppleWebKit/537.36 (KHTML, like Gecko) Chrome/121.0.0.0 Safari/537.36''
       [(''width'', 2560), (''height'', 1440)] 1.25 False False ''Win32'' 16 32 0,
     DeviceProfile ''Mozilla/5.0 (Macintosh; Intel Mac OS X 10_15_7) AppleWebKit/537.36 (KHTML, like Gecko) Chrome/131.0.0.0 Safari/537.36''
       [(''width'', 5120), (''height'', 2880)] 2.0 False False ''MacIntel'' 12 64 0,
     DeviceProfile ''Mozilla/5.0 (Macintosh; Intel Mac OS X 10_15_7) AppleWebKit/537.36 (KHTML, like Gecko) Chrome/130.0.0.0 Safari/537.36''
       [(''width'', 6016), (''height'', 3384)] 2.0 False False ''MacIntel'' 16 96 0,
     DeviceProfile ''Mozilla/5.0 (Macintosh; Intel Mac OS X 10_15_7) AppleWebKit/537.36 (KHTML, like Gecko) Chrome/129.0.0.0 Safari/537.36''
       [(''width'', 3456), (''height'', 2234)] 2.0 False False ''MacIntel'' 12 36 0,
     DeviceProfile ''Mozilla/5.0 (Macintosh; Intel Mac OS X 10_15_7) AppleWebKit/537.36 (KHTML, like Gecko) Chrome/128.0.0.0 Safari/537.36''
       [(''width'', 3024), (''height'', 1964)] 2.0 False False ''MacIntel'' 11 18 0,
     DeviceProfile ''Mozilla/5.0 (Macintosh; Intel Mac OS X 10_15_7) AppleWebKit/537.36 (KHTML, like Gecko) Chrome/127.0.0.0 Safari/537.36''
       [(''width'', 7680), (''height'', 4320)] 2.0 False False ''MacIntel'' 24 128 0,
     DeviceProfile ''Mozilla/5.0 (Macintosh; Intel Mac OS X 10_15_7) AppleWebKit/537.36 (KHTML, like Gecko) Chrome/126.0.0.0 Safari/537.36''
       [(''width'', 5120), (''height'', 2880)] 2.0 False False ''MacIntel'' 20 76 0,
     DeviceProfile ''Mozilla/5.0 (X11; Linux x86_64) AppleWebKit/537.36 (KHTML, like Gecko) Chrome/131.0.0.0 Safari/537.36''
       [(''width'', 3840), (''height'', 2160)] 1.0 False False ''Linux x86_64'' 32 128 0,
     DeviceProfile ''Mozilla/5.0 (X11; Linux x86_64) AppleWebKit/537.36 (KHTML, like Gecko) Chrome/130.0.0.0 Safari/537.36''
       [(''width'', 5120), (''height'', 2880)] 1.0 False False ''Linux x86_64'' 64 256 0,
     DeviceProfile ''Mozilla/5.0 (X11; Linux x86_64) AppleWebKit/537.36 (KHTML, like Gecko) Chrome/129.0.0.0 Safari/537.36''
       [(''width'', 2560), (''height'', 1440)] 1.25 False False ''Linux x86_64'' 16 32 0,
     DeviceProfile ''Mozilla/5.0 (X11; Linux x86_64) AppleWebKit/537.36 (KHTML, like Gecko) Chrome/128.0.0.0 Safari/537.36''
       [(''width'', 3440), (''height'', 1440)] 1.0 False False ''Linux x86_64'' 24 64 0,
     DeviceProfile ''Mozilla/5.0 (X11; Linux x86_64) AppleWebKit/537.36 (KHTML, like Gecko) Chrome/127.0.0.0 Safari/537.36''
       [(''width'', 2560), (''height'', 1440)] 1.0 False False ''Linux x86_64'' 20 48 0,
     DeviceProfile ''Mozilla/5.0 (X11; Linux x86_64) AppleWebKit/537.36 (KHTML, like Gecko) Chrome/126.0.0.0 Safari/537.36''
       [(''width'', 1920), (''height'', 1080)] 1.0 False False ''Linux x86_64'' 12 32 0,
     DeviceProfile ''Mozilla/5.0 (Windows NT 10.0; Win64; x64) AppleWebKit/537.36 (KHTML, like Gecko) Chrome/120.0.0.0 Safari/537.36''
       [(''width'', 1920), (''height'', 1080)] 1.0 False False ''Win32'' 8 16 0,
     DeviceProfile ''Mozilla/5.0 (Windows NT 10.0; Win64; x64) AppleWebKit/537.36 (KHTML, like Gecko) Chrome/119.0.0.0 Safari/537.36''
       [(''width'', 1366), (''height'', 768)] 1.0 False False ''Win32'' 4 8 0,
     DeviceProfile ''Mozilla/5.0 (Windows NT 10.0; Win64; x64) AppleWebKit/537.36 (KHTML, like Gecko) Chrome/118.0.0.0 Safari/537.36''
       [(''width'', 1440), (''height'', 900)] 1.0 False False ''Win32'' 6 8 0,
     DeviceProfile ''Mozilla/5.0 (Windows NT 10.0; Win64; x64) AppleWebKit/537.36 (KHTML, like Gecko) Chrome/117.0.0.0 Safari/537.36''
       [(''width'', 1600), (''height'', 900)] 1.0 False False ''Win32'' 8 12 0,
     DeviceProfile ''Mozilla/5.0 (Windows NT 10.0; Win64; x64) AppleWebKit/537.36 (KHTML, like Gecko) Chrome/116.0.0.0 Safari/537.36''
       [(''width'', 1280), (''height'', 720)] 1.0 False False ''Win32'' 4 6 0,
     DeviceProfile ''Mozilla/5.0 (Windows NT 10.0; Win64; x64) AppleWebKit/537.36 (KHTML, like Gecko) Chrome/115.0.0.0 Safari/537.36''
       [(''width'', 1536), (''height'', 864)] 1.25 False False ''Win32'' 8 16 0,
     DeviceProfile ''Mozilla/5.0 (Windows NT 10.0; Win64; x64) AppleWebKit/537.36 (KHTML, like Gecko) Chrome/114.0.0.0 Safari/537.36''
       [(''width'', 1728), (''height'', 1117)] 1.5 False False ''Win32'' 16 32 0,
     DeviceProfile ''Mozilla/5.0 (Windows NT 10.0; Win64; x64) AppleWebKit/537.36 (KHTML, like Gecko) Chrome/113.0.0.0 Safari/537.36''
       [(''width'', 2048), (''height'', 1152)] 1.5 False False ''Win32'' 12 24 0,
     DeviceProfile ''Mozilla/5.0 (Windows NT 10.0; Win64; x64) AppleWebKit/537.36 (KHTML, like Gecko) Chrome/112.0.0.0 Safari/537.36 Edg/112.0.0.0''
       [(''width'', 1920), (''height'', 1080)] 1.0 False False ''Win32'' 8 16 0,
     DeviceProfile ''Mozilla/5.0 (Windows NT 10.0; Win64; x64; rv:115.0) Gecko/20100101 Firefox/115.0''
       [(''width'', 1366), (''height'', 768)] 1.0 False False ''Win32'' 6 8 0,
     DeviceProfile ''Mozilla/5.0 (Windows NT 10.0; Win64; x64) AppleWebKit/537.36 (KHTML, like Gecko) Chrome/111.0.0.0 Safari/537.36 Edg/111.0.0.0''
       [(''width'', 2560), (''height'', 1440)] 1.25 False False ''Win32'' 16 32 0,
     DeviceProfile ''Mozilla/5.0 (Macintosh; Intel Mac OS X 10_15_7) AppleWebKit/605.1.15 (KHTML, like Gecko) Version/17.0 Safari/605.1.15''
       [(''width'', 1440), (''height'', 900)] 2.0 False False ''MacIntel'' 8 16 0,
     DeviceProfile ''Mozilla/5.0 (Macintosh; Intel Mac OS X 10_14_6) AppleWebKit/605.1.15 (KHTML, like Gecko) Version/16.0 Safari/605.1.15''
       [(''width'', 1680), (''height'', 1050)] 1.0 False False ''MacIntel'' 8 8 0,
     DeviceProfile ''Mozilla/5.0 (Macintosh; Intel Mac OS X 10_13_6) AppleWebKit/605.1.15 (KHTML, like Gecko) Version/15.0 Safari/605.1.15''
       [(''width'', 1280), (''height'', 800)] 1.0 False False ''MacIntel'' 4 8 0,
     DeviceProfile ''Mozilla/5.0 (Windows NT 10.0; Win64; x64) AppleWebKit/537.36 (KHTML, like Gecko) Chrome/131.0.0.0 Safari/537.36''
       [(''width'', 1792), (''height'', 1120)] 1.4 False False ''Win32'' 10 20 0,
     DeviceProfile ''Mozilla/5.0 (Windows NT 10.0; Win64; x64) AppleWebKit/537.36 (KHTML, like Gecko) Chrome/130.0.0.0 Safari/537.36''
       [(''width'', 2304), (''height'', 1440)] 1.8 False False ''Win32'' 14 28 0,
     DeviceProfile ''Mozilla/5.0 (Windows NT 10.0; Win64; x64) AppleWebKit/537.36 (KHTML, like Gecko) Chrome/129.0.0.0 Safari/537.36''
       [(''width'', 2176), (''height'', 1224)] 1.6 False False ''Win32'' 12 24 0]"

definition MOBILE_PROFILES :: "DeviceProfile list" where
  "MOBILE_PROFILES = [
     DeviceProfile ''Mozilla/5.0 (iPhone; CPU iPhone OS 17_6 like Mac OS X) AppleWebKit/605.1.15 (KHTML, like Gecko) Version/17.6 Mobile/15E148 Safari/604.1''
       [(''width'', 390), (''height'', 844)] 3.0 True True ''iPhone'' 6 6 5,
     DeviceProfile ''Mozilla/5.0 (iPhone; CPU iPhone OS 17_5 like Mac OS X) AppleWebKit/605.1.15 (KHTML, like Gecko) Version/17.5 Mobile/15E148 Safari/604.1''
       [(''width'', 428), (''height'', 926)] 3.0 True True ''iPhone'' 8 6 5,
     DeviceProfile ''Mozilla/5.0 (iPhone; CPU iPhone OS 17_4 like Mac OS X) AppleWebKit/605.1.15 (KHTML, like Gecko) Version/17.4 Mobile/15E148 Safari/604.1''
       [(''width'', 430), (''height'', 932)] 3.0 True True ''iPhone'' 8 6 5,
     DeviceProfile ''Mozilla/5.0 (iPhone; CPU iPhone OS 16_7 like Mac OS X) AppleWebKit/605.1.15 (KHTML, like Gecko) Version/16.6 Mobile/15E148 Safari/604.1''
       [(''width'', 375), (''height'', 667)] 2.0 True True ''iPhone'' 6 6 5,
     DeviceProfile ''Mozilla/5.0 (iPhone; CPU iPhone OS 16_6 like Mac OS X) AppleWebKit/605.1.15 (KHTML, like Gecko) Version/16.6 Mobile/15E148 Safari/604.1''
       [(''width'', 390), (''height'', 844)] 3.0 True True ''iPhone'' 6 6 5,
     DeviceProfile ''Mozilla/5.0 (Linux; Android 14; SM-S918B) AppleWebKit/537.36 (KHTML, like Gecko) Chrome/127.0.0.0 Mobile Safari/537.36''
       [(''width'', 412), (''height'', 915)] 2.625 True True ''Linux armv8l'' 8 8 10,
     DeviceProfile ''Mozilla/5.0 (Linux; Android 14; SM-S928B) AppleWebKit/537.36 (KHTML, like Gecko) Chrome/127.0.0.0 Mobile Safari/537.36''
       [(''width'', 412), (''height'', 915)] 2.625 True True ''Linux armv8l'' 12 8 10,
     DeviceProfile ''Mozilla/5.0 (Linux; Android 13; SM-S911B) AppleWebKit/537.36 (KHTML, like Gecko) Chrome/126.0.0.0 Mobile Safari/537.36''
       [(''width'', 360), (''height'', 780)] 3.0 True True ''Linux armv8l'' 8 8 10,
     DeviceProfile ''Mozilla/5.0 (Linux; Android 13; SM-S916B) AppleWebKit/537.36 (KHTML, like Gecko) Chrome/126.0.0.0 Mobile Safari/537.36''
       [(''width'', 384), (''height'', 854)] 2.75 True True ''Linux armv8l'' 8 8 10,
     DeviceProfile ''Mozilla/5.0 (Linux; Android 14; Pixel 8 Pro) AppleWebKit/537.36 (KHTML, like Gecko) Chrome/127.0.0.0 Mobile Safari/537.36''
       [(''width'', 412), (''height'', 892)] 2.625 True True ''Linux armv8l'' 12 8 10,
     DeviceProfile ''Mozilla/5.0 (Linux; Android 14; Pixel 8) AppleWebKit/537.36 (KHTML, like Gecko) Chrome/127.0.0.0 Mobile Safari/537.36''
       [(''width'', 412), (''height'', 915)] 2.625 True True ''Linux armv8l'' 8 8 10,
     DeviceProfile ''Mozilla/5.0 (Linux; Android 13; Pixel 7) AppleWebKit/537.36 (KHTML, like Gecko) Chrome/126.0.0.0 Mobile Safari/537.36''
       [(''width'', 412), (''height'', 915)] 2.625 True True ''Linux armv8l'' 8 8 10,
     DeviceProfile ''Mozilla/5.0 (Linux; Android 13; Pixel 7 Pro) AppleWebKit/537.36 (KHTML, like Gecko) Chrome/126.0.0.0 Mobile Safari/537.36''
       [(''width'', 412), (''height'', 892)] 2.625 True True ''Linux armv8l'' 12 8 10,
     DeviceProfile ''Mozilla/5.0 (iPhone; CPU iPhone OS 17_7 like Mac OS X) AppleWebKit/605.1.15 (KHTML, like Gecko) Version/17.7 Mobile/15E148 Safari/604.1''
       [(''width'', 430), (''height'', 932)] 3.0 True True ''iPhone'' 8 8 5,
     DeviceProfile ''Mozilla/5.0 (iPhone; CPU iPhone OS 17_3 like Mac OS X) AppleWebKit/605.1.15 (KHTML, like Gecko) Version/17.3 Mobile/15E148 Safari/604.1''
       [(''width'', 430), (''height'', 932)] 3.0 True True ''iPhone'' 8 8 5,
     DeviceProfile ''Mozilla/5.0 (iPhone; CPU iPhone OS 17_2 like Mac OS X) AppleWebKit/605.1.15 (KHTML, like Gecko) Version/17.2 Mobile/15E148 Safari/604.1''
       [(''width'', 393), (''height'', 852)] 3.0 True True ''iPhone'' 8 6 5,
     DeviceProfile ''Mozilla/5.0 (iPhone; CPU iPhone OS 17_1 like Mac OS X) AppleWebKit/605.1.15 (KHTML, like Gecko) Version/17.1 Mobile/15E148 Safari/604.1''
       [(''width'', 393), (''height'', 852)] 3.0 True True ''iPhone'' 8 6 5,
     DeviceProfile ''Mozilla/5.0 (iPhone; CPU iPhone OS 17_0 like Mac OS X) AppleWebKit/605.1.15 (KHTML, like Gecko) Version/17.0 Mobile/15E148 Safari/604.1''
       [(''width'', 428), (''height'', 926)] 3.0 True True ''iPhone'' 6 6 5,
     DeviceProfile ''Mozilla/5.0 (iPhone; CPU iPhone OS 16_8 like Mac OS X) AppleWebKit/605.1.15 (KHTML, like Gecko) Version/16.7 Mobile/15E148 Safari/604.1''
       [(''width'', 428), (''height'', 926)] 3.0 True True ''iPhone'' 6 6 5,
     DeviceProfile ''Mozilla/5.0 (iPhone; CPU iPhone OS 16_5 like Mac OS X) AppleWebKit/605.1.15 (KHTML, like Gecko) Version/16.5 Mobile/15E148 Safari/604.1''
       [(''width'', 430), (''height'', 932)] 3.0 True True ''iPhone'' 6 6 5,
     DeviceProfile ''Mozilla/5.0 (iPhone; CPU iPhone OS 16_4 like Mac OS X) AppleWebKit/605.1.15 (KHTML, like Gecko) Version/16.4 Mobile/15E148 Safari/604.1''
       [(''width'', 430), (''height'', 932)] 3.0 True True ''iPhone'' 6 6 5,
     DeviceProfile ''Mozilla/5.0 (iPhone; CPU iPhone OS 15_8 like Mac OS X) AppleWebKit/605.1.15 (KHTML, like Gecko) Version/15.6 Mobile/15E148 Safari/604.1''
       [(''width'', 390), (''height'', 844)] 3.0 True True ''iPhone'' 6 4 5,
     DeviceProfile ''Mozilla/5.0 (iPhone; CPU iPhone OS 15_7 like Mac OS X) AppleWebKit/605.1.15 (KHTML, like Gecko) Version/15.6 Mobile/15E148 Safari/604.1''
       [(''width'', 428), (''height'', 926)] 3.0 True True ''iPhone'' 6 4 5,
     DeviceProfile ''Mozilla/5.0 (Linux; Android 14; SM-S928U) AppleWebKit/537.36 (KHTML, like Gecko) Chrome/131.0.0.0 Mobile Safari/537.36''
       [(''width'', 412), (''height'', 915)] 2.625 True True ''Linux armv8l'' 12 12 10,
     DeviceProfile ''Mozilla/5.0 (Linux; Android 14; SM-S928N) AppleWebKit/537.36 (KHTML, like Gecko) Chrome/130.0.0.0 Mobile Safari/537.36''
       [(''width'', 412), (''height'', 915)] 2.625 True True ''Linux armv8l'' 12 12 10,
     DeviceProfile ''Mozilla/5.0 (Linux; Android 14; SM-S926B) AppleWebKit/537.36 (KHTML, like Gecko) Chrome/129.0.0.0 Mobile Safari/537.36''
       [(''width'', 384), (''height'', 854)] 2.75 True True ''Linux armv8l'' 8 8 10,
     DeviceProfile ''Mozilla/5.0 (Linux; Android 14; SM-S926U) AppleWebKit/537.36 (KHTML, like Gecko) Chrome/128.0.0.0 Mobile Safari/537.36''
       [(''width'', 384), (''height'', 854)] 2.75 True True ''Linux armv8l'' 8 8 10,
     DeviceProfile ''Mozilla/5.0 (Linux; Android 13; SM-S711B) AppleWebKit/537.36 (KHTML, like Gecko) Chrome/127.0.0.0 Mobile Safari/537.36''
       [(''width'', 360), (''height'', 780)] 3.0 True True ''Linux armv8l'' 8 6 10,
     DeviceProfile ''Mozilla/5.0 (Linux; Android 13; SM-S711U) AppleWebKit/537.36 (KHTML, like Gecko) Chrome/126.0.0.0 Mobile Safari/537.36''
       [(''width'', 360), (''height'', 780)] 3.0 True True ''Linux armv8l'' 8 6 10,
     DeviceProfile ''Mozilla/5.0 (Linux; Android 14; CPH2573) AppleWebKit/537.36 (KHTML, like Gecko) Chrome/131.0.0.0 Mobile Safari/537.36''
       [(''width'', 450), (''height'', 1000)] 2.625 True True ''Linux armv8l'' 16 12 10,
     DeviceProfile ''Mozilla/5.0 (Linux; Android 14; PJD110) AppleWebKit/537.36 (KHTML, like Gecko) Chrome/130.0.0.0 Mobile Safari/537.36''
       [(''width'', 450), (''height'', 1000)] 2.625 True True ''Linux armv8l'' 16 12 10,
     DeviceProfile ''Mozilla/5.0 (Linux; Android 13; CPH2449) AppleWebKit/537.36 (KHTML, like Gecko) Chrome/129.0.0.0 Mobile Safari/537.36''
       [(''width'', 412), (''height'', 915)] 2.625 True True ''Linux armv8l'' 16 8 10,
     DeviceProfile ''Mozilla/5.0 (Linux; Android 13; PJC110) AppleWebKit/537.36 (KHTML, like Gecko) Chrome/128.0.0.0 Mobile Safari/537.36''
       [(''width'', 412), (''height'', 915)] 2.625 True True ''Linux armv8l'' 16 8 10,
     DeviceProfile ''Mozilla/5.0 (Linux; Android 14; 24031PN0DC) AppleWebKit/537.36 (KHTML, like Gecko) Chrome/127.0.0.0 Mobile Safari/537.36''
       [(''width'', 412), (''height'', 915)] 2.625 True True ''Linux armv8l'' 12 8 10,
     DeviceProfile ''Mozilla/5.0 (Linux; Android 14; 2401DPN0DC) AppleWebKit/537.36 (KHTML, like Gecko) Chrome/126.0.0.0 Mobile Safari/537.36''
       [(''width'', 450), (''height'', 1000)] 2.75 True True ''Linux armv8l'' 12 12 10,
     DeviceProfile ''Mozilla/5.0 (Linux; Android 14; Pixel 6 Pro) AppleWebKit/537.36 (KHTML, like Gecko) Chrome/125.0.0.0 Mobile Safari/537.36''
       [(''width'', 412), (''height'', 892)] 2.625 True True ''Linux armv8l'' 12 8 10,
     DeviceProfile ''Mozilla/5.0 (Linux; Android 13; Pixel 6a) AppleWebKit/537.36 (KHTML, like Gecko) Chrome/124.0.0.0 Mobile Safari/537.36''
       [(''width'', 412), (''height'', 915)] 2.625 True True ''Linux armv8l'' 6 6 10,
     DeviceProfile ''Mozilla/5.0 (Linux; Android 12; Pixel 6) AppleWebKit/537.36 (KHTML, like Gecko) Chrome/123.0.0.0 Mobile Safari/537.36''
       [(''width'', 412), (''height'', 915)] 2.625 True True ''Linux armv8l'' 8 8 10,
     DeviceProfile ''Mozilla/5.0 (Linux; Android 13; ALN-L29) AppleWebKit/537.36 (KHTML, like Gecko) Chrome/122.0.0.0 Mobile Safari/537.36''
       [(''width'', 412), (''height'', 915)] 2.625 True True ''Linux armv8l'' 8 8 10,
     DeviceProfile ''Mozilla/5.0 (Linux; Android 13; ALN-AL00) AppleWebKit/537.36 (KHTML, like Gecko) Chrome/121.0.0.0 Mobile Safari/537.36''
       [(''width'', 450), (''height'', 1000)] 2.75 True True ''Linux armv8l'' 8 8 10,
     DeviceProfile ''Mozilla/5.0 (Linux; Android 13; CPH2451) AppleWebKit/537.36 (KHTML, like Gecko) Chrome/120.0.0.0 Mobile Safari/537.36''
       [(''width'', 412), (''height'', 915)] 2.625 True True ''Linux armv8l'' 12 8 10,
     DeviceProfile ''Mozilla/5.0 (Linux; Android 13; PHB110) AppleWebKit/537.36 (KHTML, like Gecko) Chrome/119.0.0.0 Mobile Safari/537.36''
       [(''width'', 450), (''height'', 1000)] 2.75 True True ''Linux armv8l'' 16 12 10]"

definition TABLET_PROFILES :: "DeviceProfile list" where
  "TABLET_PROFILES = [
     DeviceProfile ''Mozilla/5.0 (iPad; CPU OS 17_6 like Mac OS X) AppleWebKit/605.1.15 (KHTML, like Gecko) Version/17.6 Mobile/15E148 Safari/604.1''
       [(''width'', 1024), (''height'', 1366)] 2.0 True True ''MacIntel'' 16 8 5,
     DeviceProfile ''Mozilla/5.0 (iPad; CPU OS 16_7 like Mac OS X) AppleWebKit/605.1.15 (KHTML, like Gecko) Version/16.6 Mobile/15E148 Safari/604.1''
       [(''width'', 1024), (''height'', 1366)] 2.0 True True ''MacIntel'' 16 8 5,
     DeviceProfile ''Mozilla/5.0 (iPad; CPU OS 17_6 like Mac OS X) AppleWebKit/605.1.15 (KHTML, like Gecko) Version/17.6 Mobile/15E148 Safari/604.1''
       [(''width'', 834), (''height'', 1194)] 2.0 True True ''MacIntel'' 8 8 5,
     DeviceProfile ''Mozilla/5.0 (iPad; CPU OS 16_7 like Mac OS X) AppleWebKit/605.1.15 (KHTML, like Gecko) Version/16.6 Mobile/15E148 Safari/604.1''
       [(''width'', 834), (''height'', 1194)] 2.0 True True ''MacIntel'' 8 8 5,
     DeviceProfile ''Mozilla/5.0 (Linux; Android 13; SM-X916C) AppleWebKit/537.36 (KHTML, like Gecko) Chrome/127.0.0.0 Safari/537.36''
       [(''width'', 800), (''height'', 1280)] 2.0 True True ''Linux armv8l'' 12 8 10,
     DeviceProfile ''Mozilla/5.0 (Linux; Android 13; SM-X906C) AppleWebKit/537.36 (KHTML, like Gecko) Chrome/127.0.0.0 Safari/537.36''
       [(''width'', 800), (''height'', 1232)] 2.0 True True ''Linux armv8l'' 8 8 10,
     DeviceProfile ''Mozilla/5.0 (iPad; CPU OS 17_5 like Mac OS X) AppleWebKit/605.1.15 (KHTML, like Gecko) Version/17.5 Mobile/15E148 Safari/604.1''
       [(''width'', 820), (''height'', 1180)] 2.0 True True ''MacIntel'' 10 8 5,
     DeviceProfile ''Mozilla/5.0 (iPad; CPU OS 17_4 like Mac OS X) AppleWebKit/605.1.15 (KHTML, like Gecko) Version/17.4 Mobile/15E148 Safari/604.1''
       [(''width'', 820), (''height'', 1180)] 2.0 True True ''MacIntel'' 10 8 5,
     DeviceProfile ''Mozilla/5.0 (iPad; CPU OS 17_3 like Mac OS X) AppleWebKit/605.1.15 (KHTML, like Gecko) Version/17.3 Mobile/15E148 Safari/604.1''
       [(''width'', 744), (''height'', 1133)] 2.0 True True ''MacIntel'' 6 4 5,
     DeviceProfile ''Mozilla/5.0 (iPad; CPU OS 17_2 like Mac OS X) AppleWebKit/605.1.15 (KHTML, like Gecko) Version/17.2 Mobile/15E148 Safari/604.1''
       [(''width'', 744), (''height'', 1133)] 2.0 True True ''MacIntel'' 6 4 5,
     DeviceProfile ''Mozilla/5.0 (iPad; CPU OS 16_6 like Mac OS X) AppleWebKit/605.1.15 (KHTML, like Gecko) Version/16.6 Mobile/15E148 Safari/604.1''
       [(''width'', 820), (''height'', 1180)] 2.0 True True ''MacIntel'' 6 4 5,
     DeviceProfile ''Mozilla/5.0 (iPad; CPU OS 16_5 like Mac OS X) AppleWebKit/605.1.15 (KHTML, like Gecko) Version/16.5 Mobile/15E148 Safari/604.1''
       [(''width'', 820), (''height'', 1180)] 2.0 True True ''MacIntel'' 6 4 5,
     DeviceProfile ''Mozilla/5.0 (Linux; Android 13; SM-X916B) AppleWebKit/537.36 (KHTML, like Gecko) Chrome/131.0.0.0 Safari/537.36''
       [(''width'', 900), (''height'', 1440)] 2.0 True True ''Linux armv8l'' 16 12 10,
     DeviceProfile ''Mozilla/5.0 (Linux; Android 13; SM-X916U) AppleWebKit/537.36 (KHTML, like Gecko) Chrome/130.0.0.0 Safari/537.36''
       [(''width'', 900), (''height'', 1440)] 2.0 True True ''Linux armv8l'' 16 12 10,
     DeviceProfile ''Mozilla/5.0 (Linux; Android 13; SM-X816B) AppleWebKit/537.36 (KHTML, like Gecko) Chrome/129.0.0.0 Safari/537.36''
       [(''width'', 800), (''height'', 1280)] 2.0 True True ''Linux armv8l'' 12 8 10,
     DeviceProfile ''Mozilla/5.0 (Linux; Android 13; SM-X816U) AppleWebKit/537.36 (KHTML, like Gecko) Chrome/128.0.0.0 Safari/537.36''
       [(''width'', 800), (''height'', 1280)] 2.0 True True ''Linux armv8l'' 12 8 10,
     DeviceProfile ''Mozilla/5.0 (Linux; Android 12; SM-X906B) AppleWebKit/537.36 (KHTML, like Gecko) Chrome/127.0.0.0 Safari/537.36''
       [(''width'', 900), (''height'', 1440)] 2.0 True True ''Linux armv8l'' 16 8 10,
     DeviceProfile ''Mozilla/5.0 (Linux; Android 12; SM-X806B) AppleWebKit/537.36 (KHTML, like Gecko) Chrome/126.0.0.0 Safari/537.36''
       [(''width'', 800), (''height'', 1280)] 2.0 True True ''Linux armv8l'' 8 6 10,
     DeviceProfile ''Mozilla/5.0 (Windows NT 10.0; Win64; x64; Touch) AppleWebKit/537.36 (KHTML, like Gecko) Chrome/131.0.0.0 Safari/537.36''
       [(''width'', 912), (''height'', 1368)] 1.5 True True ''Win32'' 16 16 10,
     DeviceProfile ''Mozilla/5.0 (Windows NT 10.0; Win64; x64; Touch) AppleWebKit/537.36 (KHTML, like Gecko) Chrome/130.0.0.0 Safari/537.36''
       [(''width'', 912), (''height'', 1368)] 1.5 True True ''Win32'' 32 32 10,
     DeviceProfile ''Mozilla/5.0 (Linux; Android 13; Pixel Tablet) AppleWebKit/537.36 (KHTML, like Gecko) Chrome/129.0.0.0 Safari/537.36''
       [(''width'', 840), (''height'', 1344)] 2.0 True True ''Linux armv8l'' 8 8 10,
     DeviceProfile ''Mozilla/5.0 (Linux; Android 14; Pixel Tablet) AppleWebKit/537.36 (KHTML, like Gecko) Chrome/128.0.0.0 Safari/537.36''
       [(''width'', 840), (''height'', 1344)] 2.0 True True ''Linux armv8l'' 8 8 10,
     DeviceProfile ''Mozilla/5.0 (Linux; Android 11; TB-Q706F) AppleWebKit/537.36 (KHTML, like Gecko) Chrome/127.0.0.0 Safari/537.36''
       [(''width'', 800), (''height'', 1280)] 2.0 True True ''Linux armv8l'' 8 6 10,
     DeviceProfile ''Mozilla/5.0 (Linux; Android 12; TB-Q706F) AppleWebKit/537.36 (KHTML, like Gecko) Chrome/126.0.0.0 Safari/537.36''
       [(''width'', 800), (''height'', 1280)] 2.0 True True ''Linux armv8l'' 8 8 10,
     DeviceProfile ''Mozilla/5.0 (Linux; Android 11; KFTRWI) AppleWebKit/537.36 (KHTML, like Gecko) Chrome/125.0.0.0 Safari/537.36''
       [(''width'', 800), (''height'', 1280)] 1.5 True True ''Linux armv7l'' 4 3 10,
     DeviceProfile ''Mozilla/5.0 (Linux; Android 11; KFMAWI) AppleWebKit/537.36 (KHTML, like Gecko) Chrome/124.0.0.0 Safari/537.36''
       [(''width'', 600), (''height'', 1024)] 1.5 True True ''Linux armv7l'' 2 2 10,
     DeviceProfile ''Mozilla/5.0 (Linux; Android 13; 23073RPBFG) AppleWebKit/537.36 (KHTML, like Gecko) Chrome/123.0.0.0 Safari/537.36''
       [(''width'', 840), (''height'', 1344)] 2.0 True True ''Linux armv8l'' 8 8 10,
     DeviceProfile ''Mozilla/5.0 (Linux; Android 13; 2306FPCA3G) AppleWebKit/537.36 (KHTML, like Gecko) Chrome/122.0.0.0 Safari/537.36''
       [(''width'', 1000), (''height'', 1600)] 2.0 True True ''Linux armv8l'' 12 12 10,
     DeviceProfile ''Mozilla/5.0 (Linux; Android 13; OPD2203) AppleWebKit/537.36 (KHTML, like Gecko) Chrome/121.0.0.0 Safari/537.36''
       [(''width'', 800), (''height'', 1280)] 2.0 True True ''Linux armv8l'' 12 8 10,
     DeviceProfile ''Mozilla/5.0 (Linux; Android 13; OP594DL) AppleWebKit/537.36 (KHTML, like Gecko) Chrome/120.0.0.0 Safari/537.36''
       [(''width'', 800), (''height'', 1280)] 2.0 True True ''Linux armv8l'' 12 8 10]"

definition LOCALE_TZS :: "(string \<times> string) list" where
  "LOCALE_TZS = [
     (''en-US'', ''America/New_York''),
     (''en-US'', ''America/Los_Angeles''),
     (''en-US'', ''America/Chicago''),
     (''en-US'', ''America/Denver''),
     (''en-GB'', ''Europe/London''),
     (''de-DE'', ''Europe/Berlin''),
     (''fr-FR'', ''Europe/Paris''),
     (''es-ES'', ''Europe/Madrid''),
     (''it-IT'', ''Europe/Rome''),
     (''ja-JP'', ''Asia/Tokyo''),
     (''zh-CN'', ''Asia/Shanghai''),
     (''ko-KR'', ''Asia/Seoul''),
     (''pt-BR'', ''America/Sao_Paulo''),
     (''ru-RU'', ''Europe/Moscow''),
     (''ar-SA'', ''Asia/Riyadh''),
     (''hi-IN'', ''Asia/Kolkata''),
     (''th-TH'', ''Asia/Bangkok''),
     (''vi-VN'', ''Asia/Ho_Chi_Minh''),
     (''tr-TR'', ''Europe/Istanbul''),
     (''pl-PL'', ''Europe/Warsaw''),
     (''nl-NL'', ''Europe/Amsterdam''),
     (''sv-SE'', ''Europe/Stockholm''),
     (''da-DK'', ''Europe/Copenhagen''),
     (''no-NO'', ''Europe/Oslo''),
     (''fi-FI'', ''Europe/Helsinki''),
     (''cs-CZ'', ''Europe/Prague''),
     (''hu-HU'', ''Europe/Budapest''),
     (''el-GR'', ''Europe/Athens''),
     (''he-IL'', ''Asia/Jerusalem''),
     (''id-ID'', ''Asia/Jakarta''),
     (''ms-MY'', ''Asia/Kuala_Lumpur''),
     (''en-AU'', ''Australia/Sydney''),
     (''en-CA'', ''America/Toronto''),
     (''es-MX'', ''America/Mexico_City''),
     (''en-ZA'', ''Africa/Johannesburg'')]"
subsection \<open>Headers, TLS data and behavioural patterns\<close>

definition generate_realistic_headers ::
  "string \<Rightarrow> string \<Rightarrow> py_error + (string \<times> string) list" where
  \<open>generate_realistic_headers locale ua =
     bind_err (list_index (split locale CHR ''-'') 0)
       (\<lambda>language.
          let headers =
                [(''User-Agent'', ua),
                 (''Accept'', ''text/html,application/xhtml+xml,application/xml;q=0.9,image/avif,image/webp,image/apng,*/*;q=0.8,application/signed-exchange;v=b3;q=0.7''),
                 (''Accept-Language'', locale @ '','' @ language @ '';q=0.9,en;q=0.8''),
                 (''Accept-Encoding'', ''gzip, deflate, br''),
                 (''Cache-Control'', ''max-age=0''),
                 (''Upgrade-Insecure-Requests'', ''1''),
                 (''Sec-Fetch-Dest'', ''document''),
                 (''Sec-Fetch-Mode'', ''navigate''),
                 (''Sec-Fetch-Site'', ''none''),
                 (''Sec-Fetch-User'', ''?1'')]
          in if str_in ''Chrome'' ua \<and> \<not> str_in ''Edg'' ua then
               Inr (dict_update headers
                 [(''sec-ch-ua'', ''"Chromium";v="127", "Not)A;Brand";v="99"''),
                  (''sec-ch-ua-mobile'',
                     if \<not> str_in ''Mobile'' ua then ''?0'' else ''?1''),
                  (''sec-ch-ua-platform'',
                     if str_in ''Windows'' ua then ''"Windows"''
                     else if str_in ''Mac'' ua then ''"macOS"'' else ''"Linux"'')])
             else Inr headers)\<close>

definition strs :: "string list \<Rightarrow> pyval" where
  "strs xs = PList (map PStr xs)"

definition tls_dict :: "string \<Rightarrow> string list \<Rightarrow> string list \<Rightarrow> (string \<times> pyval) list" where
  "tls_dict tls_version cipher_suites extensions =
     [(''version'', PStr tls_version),
      (''cipher_suites'', strs cipher_suites),
      (''extensions'', strs extensions),
      (''curves'', strs [''X25519'', ''secp256r1'', ''secp384r1'']),
      (''signature_algorithms'',
         strs [''ecdsa_secp256r1_sha256'', ''rsa_pss_rsae_sha256'', ''rsa_pkcs1_sha256'',
               ''ecdsa_secp384r1_sha384'', ''rsa_pss_rsae_sha384'', ''rsa_pkcs1_sha384'']),
      (''alpn'', strs [''h2'', ''http/1.1''])]"

definition generate_tls_fingerprint :: "device_dict \<Rightarrow> (string \<times> pyval) list" where
  "generate_tls_fingerprint device_profile =
     (let platform = dict_get (platform_key device_profile) ''Win32'';
          user_agent = dict_get (user_agent_key device_profile) ''''
      in if str_in ''Chrome'' user_agent then
           (if str_in ''Win32'' platform then
              tls_dict ''TLSv1.3''
                [''TLS_AES_128_GCM_SHA256'', ''TLS_AES_256_GCM_SHA384'',
                 ''TLS_CHACHA20_POLY1305_SHA256'', ''TLS_ECDHE_ECDSA_WITH_AES_128_GCM_SHA256'',
                 ''TLS_ECDHE_RSA_WITH_AES_128_GCM_SHA256'']
                [''server_name'', ''extended_master_secret'', ''renegotiation_info'',
                 ''supported_groups'', ''ec_point_formats'', ''session_ticket'',
                 ''application_layer_protocol_negotiation'', ''status_request'',
                 ''signature_algorithms'', ''signed_certificate_timestamp'',
                 ''key_share'', ''psk_key_exchange_modes'', ''supported_versions'',
                 ''compress_certificate'', ''application_settings'']
            else if str_in ''Mac'' platform then
              tls_dict ''TLSv1.3''
                [''TLS_AES_128_GCM_SHA256'', ''TLS_AES_256_GCM_SHA384'',
                 ''TLS_CHACHA20_POLY1305_SHA256'', ''TLS_ECDHE_ECDSA_WITH_AES_256_GCM_SHA384'',
                 ''TLS_ECDHE_RSA_WITH_AES_256_GCM_SHA384'']
                [''server_name'', ''extended_master_secret'', ''renegotiation_info'',
                 ''supported_groups'', ''ec_point_formats'', ''session_ticket'',
                 ''application_layer_protocol_negotiation'', ''status_request'',
                 ''signature_algorithms'', ''signed_certificate_timestamp'',
                 ''key_share'', ''psk_key_exchange_modes'', ''supported_versions'']
            else
              tls_dict ''TLSv1.3''
                [''TLS_AES_128_GCM_SHA256'', ''TLS_AES_256_GCM_SHA384'',
                 ''TLS_CHACHA20_POLY1305_SHA256'', ''TLS_ECDHE_ECDSA_WITH_AES_128_GCM_SHA256'',
                 ''TLS_ECDHE_RSA_WITH_AES_128_GCM_SHA256'']
                [''server_name'', ''extended_master_secret'', ''renegotiation_info'',
                 ''supported_groups'', ''ec_point_formats'', ''session_ticket'',
                 ''application_layer_protocol_negotiation'', ''status_request'',
                 ''signature_algorithms'', ''key_share'', ''psk_key_exchange_modes'',
                 ''supported_versions''])
         else if str_in ''Safari'' user_agent then
           tls_dict ''TLSv1.3''
             [''TLS_AES_128_GCM_SHA256'', ''TLS_AES_256_GCM_SHA384'',
              ''TLS_CHACHA20_POLY1305_SHA256'', ''TLS_ECDHE_ECDSA_WITH_AES_256_GCM_SHA384'',
              ''TLS_ECDHE_ECDSA_WITH_AES_128_GCM_SHA256'']
             [''server_name'', ''extended_master_secret'', ''renegotiation_info'',
              ''supported_groups'', ''ec_point_formats'', ''session_ticket'',
              ''application_layer_protocol_negotiation'', ''signature_algorithms'',
              ''key_share'', ''psk_key_exchange_modes'', ''supported_versions'']
         else
           tls_dict ''TLSv1.3''
             [''TLS_AES_128_GCM_SHA256'', ''TLS_CHACHA20_POLY1305_SHA256'',
              ''TLS_AES_256_GCM_SHA384'', ''TLS_ECDHE_ECDSA_WITH_AES_128_GCM_SHA256'',
              ''TLS_ECDHE_RSA_WITH_AES_128_GCM_SHA256'']
             [''server_name'', ''extended_master_secret'', ''renegotiation_info'',
              ''supported_groups'', ''ec_point_formats'', ''session_ticket'',
              ''application_layer_protocol_negotiation'', ''signature_algorithms'',
              ''key_share'', ''psk_key_exchange_modes'', ''supported_versions''])"

text \<open>
  \<^verbatim>\<open>generate_advanced_behavioral_patterns\<close>: \<open>u k\<close> is the value of \<^verbatim>\<open>random()\<close> behind the
  \<open>k\<close>-th call of \<^verbatim>\<open>uniform\<close>, \<open>r k\<close> the draw behind the \<open>k\<close>-th call of \<^verbatim>\<open>randint\<close> or
  \<^verbatim>\<open>choice\<close>, in the order in which the dictionary literal evaluates them.
\<close>

definition velocity_curve :: "real \<Rightarrow> int \<Rightarrow> pyval" where
  "velocity_curve peak duration =
     PDict [(''start'', PInt 0), (''peak'', PFloat peak), (''end'', PInt 0),
            (''duration'', PInt duration)]"

definition acceleration_pattern :: "string \<Rightarrow> real \<Rightarrow> pyval" where
  "acceleration_pattern kind jitter = PDict [(''type'', PStr kind), (''jitter'', PFloat jitter)]"

definition generate_advanced_behavioral_patterns ::
  "(nat \<Rightarrow> real) \<Rightarrow> (nat \<Rightarrow> nat) \<Rightarrow> py_error + (string \<times> pyval) list" where
  "generate_advanced_behavioral_patterns u r =
     bind_err (random_choice [True, False] (r 14))
       (\<lambda>background_activity. bind_err (random_choice [True, False] (r 18))
         (\<lambda>pause_at_punctuation. Inr
           [(''mouse_patterns'', PDict
              [(''velocity_curves'', PList
                 [velocity_curve (uniform 0.3 0.7 (u 0)) (randint 200 800 (r 0)),
                  velocity_curve (uniform 0.4 0.8 (u 1)) (randint 150 600 (r 1)),
                  velocity_curve (uniform 0.2 0.6 (u 2)) (randint 300 900 (r 2))]),
               (''acceleration_patterns'', PList
                 [acceleration_pattern ''smooth'' (uniform 0.1 0.3 (u 3)),
                  acceleration_pattern ''natural'' (uniform 0.2 0.5 (u 4)),
                  acceleration_pattern ''precise'' (uniform 0.05 0.2 (u 5))]),
               (''click_patterns'', PDict
                 [(''single_click_duration'', PInt (randint 80 150 (r 3))),
                  (''double_click_interval'', PInt (randint 100 300 (r 4))),
                  (''pressure_variation'', PFloat (uniform 0.7 1.0 (u 6)))])]),
            (''keyboard_patterns'', PDict
              [(''typing_speed'', PInt (randint 45 85 (r 5))),
               (''key_hold_times'', PDict
                 [(''short'', PInt (randint 60 120 (r 6))),
                  (''medium'', PInt (randint 120 200 (r 7))),
                  (''long'', PInt (randint 200 400 (r 8)))]),
               (''inter_key_intervals'', PDict
                 [(''fast'', PInt (randint 80 150 (r 9))),
                  (''normal'', PInt (randint 150 250 (r 10))),
                  (''slow'', PInt (randint 250 500 (r 11)))]),
               (''mistake_patterns'', PDict
                 [(''backspace_probability'', PFloat (uniform 0.02 0.08 (u 7))),
                  (''correction_delay'', PInt (randint 100 400 (r 12)))])]),
            (''scroll_patterns'', PDict
              [(''scroll_speed'', PFloat (uniform 0.5 2.5 (u 8))),
               (''momentum_decay'', PFloat (uniform 0.85 0.95 (u 9))),
               (''pause_frequency'', PFloat (uniform 0.1 0.4 (u 10))),
               (''reverse_scroll_probability'', PFloat (uniform 0.05 0.15 (u 11)))]),
            (''focus_patterns'', PDict
              [(''tab_switch_frequency'', PFloat (uniform 0.1 0.6 (u 12))),
               (''window_focus_duration'', PInt (randint 2000 15000 (r 13))),
               (''background_activity'', PBool background_activity)]),
            (''timing_patterns'', PDict
              [(''page_load_delay'', PInt (randint 500 2000 (r 15))),
               (''element_interaction_delay'', PInt (randint 100 800 (r 16))),
               (''form_fill_speed'', PFloat (uniform 0.8 2.5 (u 13))),
               (''reading_simulation'', PDict
                 [(''words_per_minute'', PInt (randint 180 280 (r 17))),
                  (''pause_at_punctuation'', PBool pause_at_punctuation)])])]))"

definition generate_modern_detection_evasion :: js_text where
  "generate_modern_detection_evasion = ModernEvasionScript"

subsection \<open>\<^verbatim>\<open>random_profile\<close>\<close>

definition pick_device :: "rng \<Rightarrow> py_error + DeviceProfile" where
  "pick_device g =
     bind_err (random_choices_one [''desktop'', ''mobile'', ''tablet''] [70, 25, 5]
                 (device_type_draw g))
       (\<lambda>device_type.
          if device_type = ''desktop'' then random_choice DESKTOP_PROFILES (device_draw g)
          else if device_type = ''mobile'' then random_choice MOBILE_PROFILES (device_draw g)
          else random_choice TABLET_PROFILES (device_draw g))"

definition viewport_value :: "(string \<times> int) list \<Rightarrow> pyval" where
  "viewport_value vp = PDict (map (\<lambda>(k, v). (k, PInt v)) vp)"

definition str_dict :: "(string \<times> string) list \<Rightarrow> pyval" where
  "str_dict d = PDict (map (\<lambda>(k, v). (k, PStr v)) d)"

definition random_profile :: "(string \<Rightarrow> string) \<Rightarrow> rng \<Rightarrow> py_error + (string \<times> pyval) list" where
  "random_profile md5 g =
     bind_err (pick_device g)
       (\<lambda>device. bind_err (random_choice LOCALE_TZS (locale_draw g))
         (\<lambda>(locale, timezone).
            bind_err (random_choice [''light'', ''dark'', ''no-preference''] (color_draw g))
         (\<lambda>color_scheme.
            bind_err (random_choice [''no-preference'', ''reduce''] (motion_draw g))
         (\<lambda>reduced_motion.
            bind_err (generate_realistic_headers locale (user_agent device))
         (\<lambda>headers.
            bind_err (generate_webgl_fingerprint
              (no_keys\<lparr>platform_key := Some (platform device),
                 device_memory_key := Some (device_memory device),
                 hardware_concurrency_key := Some (hardware_concurrency device),
                 is_mobile_key := Some (is_mobile device)\<rparr>))
         (\<lambda>webgl_fingerprint.
            bind_err (create_stealth_scripts md5
              (no_keys\<lparr>platform_key := Some (platform device),
                 device_memory_key := Some (device_memory device),
                 hardware_concurrency_key := Some (hardware_concurrency device),
                 max_touch_points_key := Some (max_touch_points device),
                 viewport_key := Some (viewport device)\<rparr>))
         (\<lambda>stealth_script.
            bind_err (generate_advanced_behavioral_patterns (unit_draws g) (int_draws g))
         (\<lambda>advanced_behavioral. Inr
            [(''user_agent'', PStr (user_agent device)),
             (''viewport'', viewport_value (viewport device)),
             (''device_scale_factor'', PFloat (device_scale_factor device)),
             (''is_mobile'', PBool (is_mobile device)),
             (''has_touch'', PBool (has_touch device)),
             (''platform'', PStr (platform device)),
             (''device_memory'', PInt (device_memory device)),
             (''hardware_concurrency'', PInt (hardware_concurrency device)),
             (''max_touch_points'', PInt (max_touch_points device)),
             (''locale'', PStr locale),
             (''timezone'', PStr timezone),
             (''timezone_id'', PStr timezone),
             (''color_scheme'', PStr color_scheme),
             (''reduced_motion'', PStr reduced_motion),
             (''headers'', str_dict headers),
             (''canvas_fingerprint'', PStr (generate_canvas_fingerprint md5
                (no_keys\<lparr>platform_key := Some (platform device),
                   device_memory_key := Some (device_memory device),
                   hardware_concurrency_key := Some (hardware_concurrency device)\<rparr>))),
             (''webgl_fingerprint'', str_dict webgl_fingerprint),
             (''stealth_script'', PJs stealth_script),
             (''tls_fingerprint'', PDict (generate_tls_fingerprint
                (no_keys\<lparr>platform_key := Some (platform device),
                   user_agent_key := Some (user_agent device)\<rparr>))),
             (''advanced_behavioral'', PDict advanced_behavioral),
             (''modern_evasion'', PJs generate_modern_detection_evasion)]))))))))"

section \<open>Properties of the runner loop\<close>

lemmas runner_loop_induct = runner_loop.raw_induct [rotated 1, consumes 1, case_names pass]

lemma random_choice_nonempty:
  "xs \<noteq> [] \<Longrightarrow> \<exists>x. random_choice xs r = Inr x \<and> x \<in> set xs"
  by (simp add: random_choice_def)

lemma runner_pass_Stopped:
  assumes "runner_pass urls_list env td st = Stopped td' st'"
  shows "urls_list = [] \<or> outcome env = Cancelled \<or> sleep_cancelled env"
proof (rule ccontr)
  assume "\<not> ?thesis"
  then have ne: "urls_list \<noteq> []" and oc: "outcome env \<noteq> Cancelled"
    and sl: "\<not> sleep_cancelled env" by simp_all
  from random_choice_nonempty [OF ne] obtain url
    where "random_choice urls_list (url_draw env) = Inr url" by blast
  with assms oc sl show False
    by (cases "outcome env") (simp_all add: runner_pass_def Let_def)
qed

lemma runner_loop_Some:
  "runner_loop urls_list envs k td st = Some r \<Longrightarrow>
     urls_list = [] \<or> (\<exists>j\<ge>k. outcome (envs j) = Cancelled \<or> sleep_cancelled (envs j))"
proof (induct rule: runner_loop_induct)
  case (pass loop' urls_list envs k td st r)
  show ?case
  proof (cases "runner_pass urls_list (envs k) td st")
    case (Continue d td' st')
    with pass(2) have "loop' urls_list envs (Suc k) td' st' = Some r" by simp
    from pass(1) [OF this] show ?thesis
    proof
      assume "urls_list = []" then show ?thesis by simp
    next
      assume "\<exists>j\<ge>Suc k. outcome (envs j) = Cancelled \<or> sleep_cancelled (envs j)"
      then obtain j where "Suc k \<le> j"
        and "outcome (envs j) = Cancelled \<or> sleep_cancelled (envs j)" by blast
      then have "k \<le> j \<and> (outcome (envs j) = Cancelled \<or> sleep_cancelled (envs j))"
        by simp
      then show ?thesis by blast
    qed
  next
    case (Stopped td' st')
    from runner_pass_Stopped [OF this]
    have "urls_list = [] \<or> outcome (envs k) = Cancelled \<or> sleep_cancelled (envs k)" .
    then show ?thesis by auto
  qed
qed

lemma runner_pass_Raised:
  assumes "urls_list \<noteq> []" and "outcome env = Raised msg" and "\<not> sleep_cancelled env"
  shows "\<exists>st'. runner_pass urls_list env td st = Continue 2 td st'
           \<and> runs st' = runs st + 1 \<and> failures st' = failures st + 1
           \<and> successes st' = successes st \<and> last_detail st' = take 100 msg
           \<and> status st' = ''error/restarting''"
proof -
  from random_choice_nonempty [OF assms(1)] obtain url
    where "random_choice urls_list (url_draw env) = Inr url" by blast
  with assms(2,3) show ?thesis
    by (cases "run_step env")
       (simp_all add: runner_pass_def Let_def pass_failure_def pass_begin_def)
qed

lemma runner_pass_counters:
  assumes "runner_pass urls_list env td st = Continue d td' st'"
  shows "runs st' = runs st + 1
       \<and> (successes st' = successes st + 1 \<and> failures st' = failures st
          \<or> successes st' = successes st \<and> failures st' = failures st + 1)"
proof (cases "random_choice urls_list (url_draw env)")
  case (Inl e)
  with assms show ?thesis by (simp add: runner_pass_def Let_def)
next
  case (Inr url)
  with assms show ?thesis
    by (cases "outcome env"; cases "run_step env"; cases "sleep_cancelled env")
       (auto simp add: runner_pass_def Let_def pass_failure_def pass_success_def pass_begin_def)
qed

lemma runner_pass_invariant:
  assumes "runs st = successes st + failures st"
  shows "case runner_pass urls_list env td st of
           Continue d td' st' \<Rightarrow> runs st' = successes st' + failures st'
         | Stopped td' st' \<Rightarrow> runs st' = successes st' + failures st'"
proof (cases "random_choice urls_list (url_draw env)")
  case (Inl e)
  with assms show ?thesis by (simp add: runner_pass_def Let_def pass_begin_def)
next
  case (Inr url)
  with assms show ?thesis
    by (cases "outcome env"; cases "run_step env"; cases "sleep_cancelled env")
       (simp_all add: runner_pass_def Let_def pass_failure_def pass_success_def pass_begin_def)
qed

lemma loop_head_invariant:
  assumes "runs st = successes st + failures st"
    and "loop_head urls_list envs n td st = Some (td', st')"
  shows "runs st' = successes st' + failures st'"
  using assms(2)
proof (induction n arbitrary: td' st')
  case 0
  with assms(1) show ?case by simp
next
  case (Suc n)
  from Suc.prems obtain td1 st1 where h: "loop_head urls_list envs n td st = Some (td1, st1)"
    by (auto split: option.splits)
  from Suc.IH [OF h] have inv: "runs st1 = successes st1 + failures st1" .
  from Suc.prems h obtain d where "runner_pass urls_list (envs n) td1 st1 = Continue d td' st'"
    by (auto split: pass_result.splits)
  with runner_pass_invariant [OF inv, where urls_list = urls_list and env = "envs n" and td = td1] show ?case by simp
qed

lemma runner_pass_status:
  "case runner_pass urls_list env td st of
     Continue d td' st' \<Rightarrow>
       (\<exists>rs. outcome env = Returned rs \<and> status st' = ''idle'')
       \<or> (\<exists>m. outcome env = Raised m \<and> status st' = ''error/restarting'')
   | Stopped td' st' \<Rightarrow> status st' \<in> {''running'', ''idle'', ''error/restarting''}"
proof (cases "random_choice urls_list (url_draw env)")
  case (Inl e)
  then show ?thesis by (simp add: runner_pass_def Let_def pass_begin_def)
next
  case (Inr url)
  then show ?thesis
    by (cases "outcome env"; cases "run_step env"; cases "sleep_cancelled env")
       (simp_all add: runner_pass_def Let_def pass_failure_def pass_success_def pass_begin_def)
qed

lemma loop_head_status:
  assumes "loop_head urls_list envs (Suc n) td st = Some (td', st')"
  shows "status st' = ''idle'' \<or> status st' = ''error/restarting''"
proof -
  from assms obtain td1 st1 where h: "loop_head urls_list envs n td st = Some (td1, st1)"
    by (auto split: option.splits)
  from assms h obtain d where "runner_pass urls_list (envs n) td1 st1 = Continue d td' st'"
    by (auto split: pass_result.splits)
  with runner_pass_status [where urls_list = urls_list and env = "envs n" and td = td1 and st = st1] show ?thesis by auto
qed

lemma runner_loop_unfold_head:
  "loop_head urls_list envs n td st = Some (td', st') \<Longrightarrow>
     runner_loop urls_list envs 0 td st = runner_loop urls_list envs n td' st'"
proof (induction n arbitrary: td' st')
  case 0
  then show ?case by simp
next
  case (Suc n)
  from Suc.prems obtain td1 st1 where h: "loop_head urls_list envs n td st = Some (td1, st1)"
    by (auto split: option.splits)
  from Suc.prems h obtain d where p: "runner_pass urls_list (envs n) td1 st1 = Continue d td' st'"
    by (auto split: pass_result.splits)
  have "runner_loop urls_list envs n td1 st1 = runner_loop urls_list envs (Suc n) td' st'"
    by (subst runner_loop.simps) (simp add: p)
  with Suc.IH [OF h] show ?case by simp
qed

text \<open>
  C1. In every pass in which \<^verbatim>\<open>run_once\<close> raises an exception, \<^verbatim>\<open>runs\<close> and
  \<^verbatim>\<open>failures\<close> each grow by exactly one, \<^verbatim>\<open>last_detail\<close> becomes the first 100 characters
  of the message, \<^verbatim>\<open>status\<close> becomes \<^verbatim>\<open>error/restarting\<close>, the pass sleeps 2 seconds and the
  loop goes on with the next pass; a loop in which every pass raises never returns.
\<close>

theorem runner_exception_counted_and_retried:
  assumes "urls_list \<noteq> []"
    and "outcome (envs k) = Raised msg"
    and "\<not> sleep_cancelled (envs k)"
  shows "\<exists>st'. runner_pass urls_list (envs k) td st = Continue 2 td st'
           \<and> runs st' = runs st + 1 \<and> failures st' = failures st + 1
           \<and> successes st' = successes st
           \<and> last_detail st' = take 100 msg \<and> length (last_detail st') \<le> 100
           \<and> status st' = ''error/restarting''
           \<and> runner_loop urls_list envs k td st = runner_loop urls_list envs (Suc k) td st'
           \<and> ((\<forall>j\<ge>k. (\<exists>m. outcome (envs j) = Raised m) \<and> \<not> sleep_cancelled (envs j))
                \<longrightarrow> runner_loop urls_list envs k td st = None)"
proof -
  from runner_pass_Raised [OF assms, of td st] obtain st'
    where p: "runner_pass urls_list (envs k) td st = Continue 2 td st'"
      and c: "runs st' = runs st + 1" "failures st' = failures st + 1"
             "successes st' = successes st" "last_detail st' = take 100 msg"
             "status st' = ''error/restarting''" by blast
  have step: "runner_loop urls_list envs k td st = runner_loop urls_list envs (Suc k) td st'"
    by (subst runner_loop.simps) (simp add: p)
  have forever: "runner_loop urls_list envs k td st = None"
    if all: "\<forall>j\<ge>k. (\<exists>m. outcome (envs j) = Raised m) \<and> \<not> sleep_cancelled (envs j)"
  proof (cases "runner_loop urls_list envs k td st")
    case None
    then show ?thesis .
  next
    case (Some r)
    from runner_loop_Some [OF this] assms(1) obtain j where "k \<le> j"
      and "outcome (envs j) = Cancelled \<or> sleep_cancelled (envs j)" by blast
    with all show ?thesis by auto
  qed
  from p c step forever show ?thesis by auto
qed

theorem runner_exception_counted_and_retried_witness:
  "[''https://a.example''] \<noteq> []
   \<and> outcome ((\<lambda>_. \<lparr>url_draw = 0, clock = 7, run_step = Some ''opening url'',
                     outcome = Raised ''net::ERR_TIMED_OUT'', sleep_cancelled = False\<rparr>) (0::nat))
       = Raised ''net::ERR_TIMED_OUT''
   \<and> runner_pass [''https://a.example'']
        \<lparr>url_draw = 0, clock = 7, run_step = Some ''opening url'',
         outcome = Raised ''net::ERR_TIMED_OUT'', sleep_cancelled = False\<rparr>
        0 (new_InstanceState 1 0)
      = Continue 2 0
         \<lparr>inst_id = 1, runs = 1, successes = 0, failures = 1,
          current_step = ''error recovery'', last_url = ''https://a.example'',
          last_detail = ''net::ERR_TIMED_OUT'', status = ''error/restarting'', started_at = 7,
          last_duration = 0\<rparr>
   \<and> runner_loop [''https://a.example'']
        (\<lambda>_. \<lparr>url_draw = 0, clock = 7, run_step = Some ''opening url'',
               outcome = Raised ''net::ERR_TIMED_OUT'', sleep_cancelled = False\<rparr>)
        0 0 (new_InstanceState 1 0) = None"
proof -
  let ?env = "\<lparr>url_draw = 0, clock = 7, run_step = Some ''opening url'',
                outcome = Raised ''net::ERR_TIMED_OUT'', sleep_cancelled = False\<rparr>"
  let ?envs = "\<lambda>_::nat. ?env"
  have h1: "[''https://a.example''] \<noteq> []" by simp
  have h2: "outcome (?envs 0) = Raised ''net::ERR_TIMED_OUT''" by simp
  have h3: "\<not> sleep_cancelled (?envs 0)" by simp
  from runner_exception_counted_and_retried
    [of "[''https://a.example'']" ?envs 0 "''net::ERR_TIMED_OUT''" 0 "new_InstanceState 1 0",
     OF h1 h2 h3]
  have imp: "(\<forall>j\<ge>0. (\<exists>m. outcome (?envs j) = Raised m) \<and> \<not> sleep_cancelled (?envs j))
               \<longrightarrow> runner_loop [''https://a.example''] ?envs 0 0 (new_InstanceState 1 0) = None"
    by blast
  have "\<forall>j\<ge>0. (\<exists>m. outcome (?envs j) = Raised m) \<and> \<not> sleep_cancelled (?envs j)"
    by simp
  with imp have never: "runner_loop [''https://a.example''] ?envs 0 0 (new_InstanceState 1 0) = None"
    by blast
  have pass: "runner_pass [''https://a.example''] ?env 0 (new_InstanceState 1 0)
      = Continue 2 0
         \<lparr>inst_id = 1, runs = 1, successes = 0, failures = 1,
          current_step = ''error recovery'', last_url = ''https://a.example'',
          last_detail = ''net::ERR_TIMED_OUT'', status = ''error/restarting'', started_at = 7,
          last_duration = 0\<rparr>"
    by (simp add: runner_pass_def random_choice_def pass_begin_def pass_failure_def
          new_InstanceState_def Let_def)
  from h1 h2 pass never show ?thesis by blast
qed

lemma runner_pass_Stopped_status:
  assumes "runner_pass urls_list env td st = Stopped td' st'"
  shows "if urls_list = [] \<or> outcome env = Cancelled then status st' = ''running''
         else sleep_cancelled env
              \<and> (status st' = ''idle'' \<or> status st' = ''error/restarting'')"
proof (cases "urls_list = []")
  case True
  with assms show ?thesis
    by (auto simp add: runner_pass_def random_choice_def Let_def pass_begin_def)
next
  case False
  from random_choice_nonempty [OF False] obtain url
    where "random_choice urls_list (url_draw env) = Inr url" by blast
  with assms False show ?thesis
    by (cases "outcome env"; cases "run_step env"; cases "sleep_cancelled env")
       (auto simp add: runner_pass_def Let_def pass_failure_def pass_success_def pass_begin_def)
qed

text \<open>
  C8. The status of a runner goes \<^verbatim>\<open>idle\<close>, \<^verbatim>\<open>running\<close>, then \<^verbatim>\<open>idle\<close> or
  \<^verbatim>\<open>error/restarting\<close>, then \<^verbatim>\<open>running\<close> again, and so on: at the head of the loop it is
  \<^verbatim>\<open>idle\<close> (initially, or after a successful pass) or \<^verbatim>\<open>error/restarting\<close>; every pass
  first sets it to \<^verbatim>\<open>running\<close>; a pass that completes leaves \<^verbatim>\<open>idle\<close> exactly when
  \<^verbatim>\<open>run_once\<close> returned and \<^verbatim>\<open>error/restarting\<close> exactly when it raised; no other value
  occurs; the loop does reach each such head; and with a non-empty URL list
  \<^verbatim>\<open>runner_task\<close> ends only by cancellation.
\<close>

theorem runner_status_cycle:
  assumes "urls_list \<noteq> []"
    and "loop_head urls_list envs n td (new_InstanceState i now) = Some (tdn, stn)"
  shows "(if n = 0 then status stn = ''idle''
          else status stn = ''idle'' \<or> status stn = ''error/restarting'')
       \<and> status (pass_begin stn) = ''running''
       \<and> (case runner_pass urls_list (envs n) tdn stn of
            Continue d td' st' \<Rightarrow>
              (\<exists>rs. outcome (envs n) = Returned rs \<and> status st' = ''idle'')
              \<or> (\<exists>m. outcome (envs n) = Raised m \<and> status st' = ''error/restarting'')
          | Stopped td' st' \<Rightarrow>
              (if outcome (envs n) = Cancelled then status st' = ''running''
               else sleep_cancelled (envs n)
                    \<and> (status st' = ''idle'' \<or> status st' = ''error/restarting'')))
       \<and> runner_loop urls_list envs 0 td (new_InstanceState i now)
           = runner_loop urls_list envs n tdn stn
       \<and> (\<forall>r. runner_task urls_list cancelled_at_start envs td (new_InstanceState i now)
                = Some r
              \<longrightarrow> cancelled_at_start
                  \<or> (\<exists>j. outcome (envs j) = Cancelled \<or> sleep_cancelled (envs j)))"
proof -
  have head: "if n = 0 then status stn = ''idle''
              else status stn = ''idle'' \<or> status stn = ''error/restarting''"
  proof (cases n)
    case 0
    with assms(2) show ?thesis by (auto simp add: new_InstanceState_def)
  next
    case (Suc m)
    with loop_head_status [of urls_list envs m td "new_InstanceState i now" tdn stn] assms(2)
    show ?thesis by simp
  qed
  have first: "status (pass_begin stn) = ''running''"
    by (simp add: pass_begin_def)
  have pass: "case runner_pass urls_list (envs n) tdn stn of
            Continue d td' st' \<Rightarrow>
              (\<exists>rs. outcome (envs n) = Returned rs \<and> status st' = ''idle'')
              \<or> (\<exists>m. outcome (envs n) = Raised m \<and> status st' = ''error/restarting'')
          | Stopped td' st' \<Rightarrow>
              (if outcome (envs n) = Cancelled then status st' = ''running''
               else sleep_cancelled (envs n)
                    \<and> (status st' = ''idle'' \<or> status st' = ''error/restarting''))"
  proof (cases "runner_pass urls_list (envs n) tdn stn")
    case (Continue d td' st')
    with runner_pass_status
      [where urls_list = urls_list and env = "envs n" and td = tdn and st = stn]
    show ?thesis by simp
  next
    case (Stopped td' st')
    from runner_pass_Stopped_status [OF this] assms(1) Stopped show ?thesis by simp
  qed
  have reach: "runner_loop urls_list envs 0 td (new_InstanceState i now)
                 = runner_loop urls_list envs n tdn stn"
    by (rule runner_loop_unfold_head [OF assms(2)])
  have leave: "cancelled_at_start
                 \<or> (\<exists>j. outcome (envs j) = Cancelled \<or> sleep_cancelled (envs j))"
    if r: "runner_task urls_list cancelled_at_start envs td (new_InstanceState i now) = Some r"
    for r
  proof (cases cancelled_at_start)
    case True
    then show ?thesis by simp
  next
    case False
    with r have "runner_loop urls_list envs 0 td (new_InstanceState i now) = Some r"
      by (simp add: runner_task_def)
    from runner_loop_Some [OF this] assms(1) show ?thesis by blast
  qed
  from head first pass reach leave show ?thesis by blast
qed

theorem runner_status_cycle_witness:
  "[''u''] \<noteq> []
   \<and> loop_head [''u'']
        (\<lambda>k. \<lparr>url_draw = 0, clock = 1, run_step = None,
               outcome = (if k = 0 then Raised ''x'' else Cancelled),
               sleep_cancelled = False\<rparr>)
        (Suc 0) 0 (new_InstanceState 1 0)
      = Some (0, \<lparr>inst_id = 1, runs = 1, successes = 0, failures = 1,
          current_step = ''error recovery'', last_url = ''u'', last_detail = ''x'',
          status = ''error/restarting'', started_at = 1, last_duration = 0\<rparr>)
   \<and> status (pass_begin \<lparr>inst_id = 1, runs = 1, successes = 0, failures = 1,
          current_step = ''error recovery'', last_url = ''u'', last_detail = ''x'',
          status = ''error/restarting'', started_at = 1, last_duration = 0\<rparr>) = ''running''"
proof -
  let ?envs = "\<lambda>k::nat. \<lparr>url_draw = 0, clock = 1, run_step = None,
               outcome = (if k = 0 then Raised ''x'' else Cancelled),
               sleep_cancelled = False\<rparr>"
  let ?st = "\<lparr>inst_id = 1, runs = 1, successes = 0, failures = 1,
          current_step = ''error recovery'', last_url = ''u'', last_detail = ''x'',
          status = ''error/restarting'', started_at = 1, last_duration = 0\<rparr>"
  have h1: "[''u''] \<noteq> []" by simp
  have h2: "loop_head [''u''] ?envs (Suc 0) 0 (new_InstanceState 1 0) = Some (0, ?st)"
    by (simp add: runner_pass_def random_choice_def pass_begin_def pass_failure_def
          new_InstanceState_def Let_def)
  from runner_status_cycle [of "[''u'']" ?envs "Suc 0" 0 1 0 0 ?st False, OF h1 h2]
  have "status (pass_begin ?st) = ''running''" by blast
  with h1 h2 show ?thesis by blast
qed

text \<open>
  C9. Between passes \<^verbatim>\<open>runs = successes + failures\<close>: it holds for a fresh
  \<^verbatim>\<open>InstanceState\<close> and at the head of the loop before every pass; a pass that completes
  adds exactly one to \<^verbatim>\<open>runs\<close> and exactly one to exactly one of \<^verbatim>\<open>successes\<close> and
  \<^verbatim>\<open>failures\<close>, and the equality holds again after it, also when the pass is cut short.
\<close>

theorem runs_equals_successes_plus_failures:
  assumes "loop_head urls_list envs n td (new_InstanceState i now) = Some (tdn, stn)"
  shows "runs (new_InstanceState i now)
           = successes (new_InstanceState i now) + failures (new_InstanceState i now)
       \<and> runs stn = successes stn + failures stn
       \<and> (case runner_pass urls_list (envs n) tdn stn of
            Continue d td' st' \<Rightarrow>
              runs st' = runs stn + 1
              \<and> (successes st' = successes stn + 1 \<and> failures st' = failures stn
                 \<or> successes st' = successes stn \<and> failures st' = failures stn + 1)
              \<and> runs st' = successes st' + failures st'
          | Stopped td' st' \<Rightarrow> runs st' = successes st' + failures st')"
proof -
  have init: "runs (new_InstanceState i now)
           = successes (new_InstanceState i now) + failures (new_InstanceState i now)"
    by (simp add: new_InstanceState_def)
  from loop_head_invariant [OF init assms]
  have inv: "runs stn = successes stn + failures stn" .
  have pass: "case runner_pass urls_list (envs n) tdn stn of
            Continue d td' st' \<Rightarrow>
              runs st' = runs stn + 1
              \<and> (successes st' = successes stn + 1 \<and> failures st' = failures stn
                 \<or> successes st' = successes stn \<and> failures st' = failures stn + 1)
              \<and> runs st' = successes st' + failures st'
          | Stopped td' st' \<Rightarrow> runs st' = successes st' + failures st'"
  proof (cases "runner_pass urls_list (envs n) tdn stn")
    case (Continue d td' st')
    from runner_pass_counters [OF this]
      runner_pass_invariant [OF inv, where urls_list = urls_list and env = "envs n" and td = tdn]
      Continue
    show ?thesis by simp
  next
    case (Stopped td' st')
    with runner_pass_invariant
      [OF inv, where urls_list = urls_list and env = "envs n" and td = tdn]
    show ?thesis by simp
  qed
  from init inv pass show ?thesis by blast
qed

theorem runs_equals_successes_plus_failures_witness:
  "loop_head [''u'']
        (\<lambda>k. \<lparr>url_draw = 0, clock = 1, run_step = None,
               outcome = (if k = 0 then Raised ''x''
                          else Returned [StepResult ''Done'' ''OK'' ''Elapsed: 3.0s'']),
               sleep_cancelled = False\<rparr>)
        (Suc (Suc 0)) 0 (new_InstanceState 1 0)
      = Some (1, \<lparr>inst_id = 1, runs = 2, successes = 1, failures = 1,
          current_step = ''sleep 1s'', last_url = ''u'', last_detail = ''Elapsed: 3.0s'',
          status = ''idle'', started_at = 1, last_duration = 0\<rparr>)
   \<and> runs \<lparr>inst_id = 1, runs = 2, successes = 1, failures = 1,
          current_step = ''sleep 1s'', last_url = ''u'', last_detail = ''Elapsed: 3.0s'',
          status = ''idle'', started_at = 1, last_duration = 0\<rparr>
     = successes \<lparr>inst_id = 1, runs = 2, successes = 1, failures = 1,
          current_step = ''sleep 1s'', last_url = ''u'', last_detail = ''Elapsed: 3.0s'',
          status = ''idle'', started_at = 1, last_duration = 0\<rparr>
       + failures \<lparr>inst_id = 1, runs = 2, successes = 1, failures = 1,
          current_step = ''sleep 1s'', last_url = ''u'', last_detail = ''Elapsed: 3.0s'',
          status = ''idle'', started_at = 1, last_duration = 0\<rparr>"
proof -
  let ?envs = "\<lambda>k::nat. \<lparr>url_draw = 0, clock = 1, run_step = None,
               outcome = (if k = 0 then Raised ''x''
                          else Returned [StepResult ''Done'' ''OK'' ''Elapsed: 3.0s'']),
               sleep_cancelled = False\<rparr>"
  let ?st = "\<lparr>inst_id = 1, runs = 2, successes = 1, failures = 1,
          current_step = ''sleep 1s'', last_url = ''u'', last_detail = ''Elapsed: 3.0s'',
          status = ''idle'', started_at = 1, last_duration = 0\<rparr>"
  have h: "loop_head [''u''] ?envs (Suc (Suc 0)) 0 (new_InstanceState 1 0) = Some (1, ?st)"
    by (simp add: runner_pass_def random_choice_def pass_begin_def pass_failure_def
          pass_success_def new_InstanceState_def Let_def)
  from runs_equals_successes_plus_failures [of "[''u'']" ?envs "Suc (Suc 0)" 0 1 0 1 ?st, OF h]
  have "runs ?st = successes ?st + failures ?st" by blast
  with h show ?thesis by blast
qed

section \<open>Properties of the start-up\<close>

subsection \<open>Decimal numerals are read back\<close>

lemma digit_cases:
  assumes "d < (10::nat)"
  obtains "d = 0" | "d = 1" | "d = 2" | "d = 3" | "d = 4"
    | "d = 5" | "d = 6" | "d = 7" | "d = 8" | "d = 9"
proof -
  from assms have "d = 0 \<or> d = 1 \<or> d = 2 \<or> d = 3 \<or> d = 4
      \<or> d = 5 \<or> d = 6 \<or> d = 7 \<or> d = 8 \<or> d = 9" by arith
  with that show thesis by blast
qed

lemma digit_char_is_digit: "d < 10 \<Longrightarrow> is_digit (digit_char d)"
  by (erule digit_cases) (simp_all add: is_digit_def digit_char_def)

lemma digit_char_val: "d < 10 \<Longrightarrow> digit_val (digit_char d) = int d"
  by (erule digit_cases) (simp_all add: digit_val_def digit_char_def)

lemma is_digit_not_space: "is_digit c \<Longrightarrow> \<not> isspace c"
  by (auto simp add: is_digit_def isspace_def)

lemma is_digit_not_sign: "is_digit c \<Longrightarrow> c \<noteq> CHR ''-'' \<and> c \<noteq> CHR ''+''"
  by (auto simp add: is_digit_def)

lemma digits_of_all_digits: "c \<in> set (digits_of n) \<Longrightarrow> is_digit c"
proof (induction n arbitrary: c rule: digits_of.induct)
  case (1 n)
  show ?case
  proof (cases "n < 10")
    case True
    with "1.prems" show ?thesis
      by (simp add: digits_of.simps [of n] digit_char_is_digit)
  next
    case False
    with "1.prems" have "c \<in> set (digits_of (n div 10)) \<or> c = digit_char (n mod 10)"
      by (auto simp add: digits_of.simps [of n])
    then show ?thesis
    proof
      assume "c \<in> set (digits_of (n div 10))"
      with "1.IH" False show ?thesis by simp
    next
      assume "c = digit_char (n mod 10)"
      then show ?thesis by (simp add: digit_char_is_digit)
    qed
  qed
qed

lemma digits_of_nonempty: "digits_of n \<noteq> []"
  by (subst digits_of.simps) simp

lemma parse_digits_run:
  "(\<And>c. c \<in> set ds \<Longrightarrow> is_digit c) \<Longrightarrow>
     parse_digits acc (ds @ es) = parse_digits (foldl (\<lambda>a c. 10 * a + digit_val c) acc ds) es"
  by (induction ds arbitrary: acc) simp_all

lemma foldl_digits_of: "foldl (\<lambda>a c. 10 * a + digit_val c) 0 (digits_of n) = int n"
proof (induction n rule: digits_of.induct)
  case (1 n)
  show ?case
  proof (cases "n < 10")
    case True
    then show ?thesis by (simp add: digits_of.simps [of n] digit_char_val)
  next
    case False
    with "1.IH" have "foldl (\<lambda>a c. 10 * a + digit_val c) 0 (digits_of (n div 10)) = int (n div 10)"
      by simp
    with False show ?thesis
      by (simp add: digits_of.simps [of n] digit_char_val zdiv_int zmod_int)
  qed
qed

lemma filter_digits_of: "filter is_digit (digits_of n) = digits_of n"
  by (simp add: digits_of_all_digits)

lemma parse_unsigned_too_long:
  "int_max_str_digits < length (filter is_digit s) \<Longrightarrow> parse_unsigned s = None"
  by (cases s) (auto simp add: parse_unsigned_def split: if_splits)

lemma parse_unsigned_digits_of:
  "parse_unsigned (digits_of n)
     = (if int_max_str_digits < length (digits_of n) then None else Some (int n))"
proof (cases "int_max_str_digits < length (digits_of n)")
  case True
  then show ?thesis by (simp add: parse_unsigned_too_long filter_digits_of)
next
  case False
  obtain c cs where s: "digits_of n = c # cs"
    using digits_of_nonempty [of n] by (cases "digits_of n") auto
  then have d: "is_digit c" using digits_of_all_digits [of c n] by simp
  from False have "\<not> int_max_str_digits < length (filter is_digit (digits_of n))"
    by (simp add: filter_digits_of)
  then have "parse_unsigned (digits_of n) = parse_digits 0 (digits_of n @ [])"
    using s d by (simp add: parse_unsigned_def)
  also have "\<dots> = parse_digits (foldl (\<lambda>a c. 10 * a + digit_val c) 0 (digits_of n)) []"
    by (rule parse_digits_run) (rule digits_of_all_digits)
  finally show ?thesis using False by (simp add: foldl_digits_of)
qed

lemma is_digit_not_int_space: "is_digit c \<Longrightarrow> \<not> int_space c"
  by (auto simp add: is_digit_def int_space_def)

lemma trim_id:
  assumes "s \<noteq> []" and "\<not> P (hd s)" and "\<not> P (last s)"
  shows "rev (dropWhile P (rev (dropWhile P s))) = s"
proof -
  from assms(1,2) have a: "dropWhile P s = s" by (cases s) simp_all
  from assms(1,3) have "dropWhile P (rev s) = rev s"
    by (cases "rev s") (simp_all add: hd_rev [symmetric])
  with a show ?thesis by simp
qed

lemma str_int_ends:
  "str_int i \<noteq> []
   \<and> (hd (str_int i) = CHR ''-'' \<or> is_digit (hd (str_int i)))
   \<and> is_digit (last (str_int i))"
proof -
  have "hd (digits_of n) \<in> set (digits_of n)" and "last (digits_of n) \<in> set (digits_of n)" for n
    by (simp_all add: digits_of_nonempty)
  then have "is_digit (hd (digits_of n))" and "is_digit (last (digits_of n))" for n
    using digits_of_all_digits by blast+
  then show ?thesis by (simp add: str_int_def digits_of_nonempty)
qed

lemma strip_str_int: "strip (str_int i) = str_int i"
  unfolding strip_def
proof (rule trim_id)
  show "str_int i \<noteq> []" using str_int_ends by blast
  from str_int_ends [of i] show "\<not> isspace (hd (str_int i))"
    by (auto simp add: is_digit_not_space) (simp add: isspace_def)
  from str_int_ends [of i] show "\<not> isspace (last (str_int i))"
    by (simp add: is_digit_not_space)
qed

lemma int_trim_str_int:
  "rev (dropWhile int_space (rev (dropWhile int_space (str_int i)))) = str_int i"
proof (rule trim_id)
  show "str_int i \<noteq> []" using str_int_ends by blast
  from str_int_ends [of i] show "\<not> int_space (hd (str_int i))"
    by (auto simp add: is_digit_not_int_space) (simp add: int_space_def)
  from str_int_ends [of i] show "\<not> int_space (last (str_int i))"
    by (simp add: is_digit_not_int_space)
qed

lemma py_int_str_int:
  "py_int (str_int i)
     = (if int_max_str_digits < length (digits_of (nat \<bar>i\<bar>)) then None else Some i)"
proof (cases "i < 0")
  case True
  then have "nat (- i) = nat \<bar>i\<bar>" by simp
  with True show ?thesis
    using int_trim_str_int [of i]
    by (simp add: py_int_def str_int_def parse_unsigned_digits_of)
next
  case False
  obtain c cs where s: "digits_of (nat i) = c # cs"
    using digits_of_nonempty [of "nat i"] by (cases "digits_of (nat i)") auto
  then have "is_digit c" using digits_of_all_digits [of c "nat i"] by simp
  then have "c \<noteq> CHR ''-''" and "c \<noteq> CHR ''+''" using is_digit_not_sign by blast+
  moreover have "parse_unsigned (c # cs)
      = (if int_max_str_digits < length (digits_of (nat \<bar>i\<bar>)) then None else Some i)"
    using parse_unsigned_digits_of [of "nat i"] s False by simp
  ultimately show ?thesis
    using int_trim_str_int [of i] False s by (simp add: py_int_def str_int_def)
qed

lemma digits_of_short: "n < 100 \<Longrightarrow> length (digits_of n) \<le> 2"
proof -
  assume n: "n < 100"
  show ?thesis
  proof (cases "n < 10")
    case True
    then show ?thesis by (simp add: digits_of.simps [of n])
  next
    case False
    from n have "n div 10 < 10" by simp
    then have "length (digits_of (n div 10)) = 1"
      by (simp add: digits_of.simps [of "n div 10"])
    with False show ?thesis by (simp add: digits_of.simps [of n])
  qed
qed

lemma py_int_str_int_small: "0 \<le> i \<Longrightarrow> i < 100 \<Longrightarrow> py_int (str_int i) = Some i"
proof -
  assume "0 \<le> i" and "i < 100"
  then have "nat \<bar>i\<bar> < 100" by simp
  from digits_of_short [OF this] show ?thesis
    by (simp add: py_int_str_int int_max_str_digits_def)
qed

text \<open>
  The limit at work: a numeral of 4300 zeros followed by a 7 has 4301 digits, so
  \<^verbatim>\<open>int\<close> refuses it although its value would be 7.
\<close>

lemma py_int_digit_limit: "py_int (replicate 4300 CHR ''0'' @ ''7'') = None"
proof -
  let ?s = "replicate 4300 CHR ''0'' @ ''7''"
  have z: "is_digit CHR ''0''" and s: "is_digit CHR ''7''"
    by (simp_all add: is_digit_def)
  have ne: "?s \<noteq> []" by simp
  have h: "hd ?s = CHR ''0''" by (simp add: hd_append)
  have l: "last ?s = CHR ''7''" by simp
  from h l have "\<not> int_space (hd ?s)" and "\<not> int_space (last ?s)"
    by (simp_all add: int_space_def)
  from trim_id [OF ne this]
  have t: "rev (dropWhile int_space (rev (dropWhile int_space ?s))) = ?s" .
  have "filter is_digit ?s = ?s" using z s by simp
  then have "length (filter is_digit ?s) = 4301" by simp
  then have "parse_unsigned ?s = None"
    by (intro parse_unsigned_too_long) (simp add: int_max_str_digits_def)
  moreover obtain cs where c: "?s = CHR ''0'' # cs"
    using ne h by (cases ?s) auto
  ultimately show ?thesis
    unfolding py_int_def t by (simp add: c)
qed

lemma choose_instances_digit_limit:
  "choose_instances (Typed (replicate 4300 CHR ''0'' @ ''7'')) = 1"
proof -
  let ?s = "replicate 4300 CHR ''0'' @ ''7''"
  have ne: "?s \<noteq> []" by simp
  have "hd ?s = CHR ''0''" by (simp add: hd_append)
  moreover have "last ?s = CHR ''7''" by simp
  ultimately have "\<not> isspace (hd ?s)" and "\<not> isspace (last ?s)"
    by (simp_all add: isspace_def)
  from trim_id [OF ne this] have "strip ?s = ?s" by (simp add: strip_def)
  then show ?thesis by (simp add: choose_instances_def py_int_digit_limit)
qed

subsection \<open>The URL file\<close>

lemma main_startup_no_urls:
  assumes "url_file env = Inr text"
    and "filter (\<lambda>ln. strip ln \<noteq> []) (splitlines text) = []"
  shows "main_startup env
           = ([Print ''[bold red]No URLs found in the file[/bold red]''], SysExit 1)"
  using assms by (simp add: main_startup_def)

lemma main_startup_Started:
  assumes "main_startup env = (evs, Started urls_list states)"
  shows "urls_list \<noteq> []
       \<and> states = map (\<lambda>i. new_InstanceState (int i + 1) (state_clock env i))
                    [0..<nat (choose_instances (reply env))]"
proof (cases "url_file env")
  case (Inl e)
  with assms show ?thesis by (simp add: main_startup_def)
next
  case (Inr body)
  with assms show ?thesis
    by (auto simp add: main_startup_def Let_def
          split: if_splits option.splits prod.splits)
qed

text \<open>
  C2. When \<^verbatim>\<open>urls.txt\<close> has no line that is non-empty after stripping, the program prints
  an error message and exits with code 1, and no browser launch precedes the exit.
\<close>

theorem empty_url_file_exits_before_launch:
  assumes "url_file env = Inr text"
    and "\<forall>ln\<in>set (splitlines text). strip ln = []"
  shows "main_startup env
           = ([Print ''[bold red]No URLs found in the file[/bold red]''], SysExit 1)
       \<and> exit_code (snd (main_startup env)) = Some 1
       \<and> LaunchBrowser \<notin> set (fst (main_startup env))"
proof -
  from assms(2) have "filter (\<lambda>ln. strip ln \<noteq> []) (splitlines text) = []"
    by (simp add: filter_empty_conv)
  from main_startup_no_urls [OF assms(1) this] show ?thesis
    by (simp add: exit_code_def)
qed

theorem empty_url_file_exits_before_launch_witness:
  "splitlines [CHR 0x20, CHR 0x0D, CHR 0x0A, CHR 0x09, CHR 0x0A] = ['' '', [CHR 0x09]]
   \<and> strip '' '' = [] \<and> strip [CHR 0x09] = []
   \<and> main_startup
        \<lparr>url_file = Inr [CHR 0x20, CHR 0x0D, CHR 0x0A, CHR 0x09, CHR 0x0A],
         reply = Typed ''5'', state_clock = real, driver_failure = None,
         launch_failure = None, relaunch_failure = None\<rparr>
      = ([Print ''[bold red]No URLs found in the file[/bold red]''], SysExit 1)"
proof -
  let ?text = "[CHR 0x20, CHR 0x0D, CHR 0x0A, CHR 0x09, CHR 0x0A]"
  let ?env = "\<lparr>url_file = Inr ?text, reply = Typed ''5'', state_clock = real,
                driver_failure = None, launch_failure = None, relaunch_failure = None\<rparr>"
  have sp: "splitlines ?text = ['' '', [CHR 0x09]]"
    by (simp add: splitlines_def is_linebreak_def)
  have s1: "strip '' '' = []" and s2: "strip [CHR 0x09] = []"
    by (simp_all add: strip_def isspace_def)
  have h1: "url_file ?env = Inr ?text" by simp
  have h2: "\<forall>ln\<in>set (splitlines ?text). strip ln = []"
    using s1 s2 by (simp add: sp)
  from empty_url_file_exits_before_launch [OF h1 h2]
  have "main_startup ?env
          = ([Print ''[bold red]No URLs found in the file[/bold red]''], SysExit 1)"
    by blast
  with sp s1 s2 show ?thesis by blast
qed

subsection \<open>The instance count\<close>

lemma choose_instances_range: "1 \<le> choose_instances r \<and> choose_instances r \<le> 50"
  by (cases r) (auto simp add: choose_instances_def split: option.splits)

text \<open>
  C3. An answer to the prompt that is not an integer between 1 and 50 gives one instance,
  and an integer \<open>n\<close> between 1 and 50 gives \<open>n\<close> instances: the count follows the value
  \<^verbatim>\<open>int\<close> reads from the stripped answer, the decimal numeral of every integer is read
  back as that integer, and a start that reaches the runners has exactly that many
  states, numbered from 1.
\<close>

theorem instance_count_fallback:
  "choose_instances (Typed user_in)
     = (case py_int (strip user_in) of
          None \<Rightarrow> 1
        | Some n \<Rightarrow> if 1 \<le> n \<and> n \<le> 50 then n else 1)
   \<and> choose_instances (Typed (str_int n)) = (if 1 \<le> n \<and> n \<le> 50 then n else 1)
   \<and> choose_instances InputFailed = 1
   \<and> (main_startup env = (evs, Started urls_list states)
        \<longrightarrow> int (length states) = choose_instances (reply env)
            \<and> map inst_id states = map (\<lambda>i. int i + 1) [0..<length states])"
proof -
  have a: "choose_instances (Typed user_in)
     = (case py_int (strip user_in) of
          None \<Rightarrow> 1
        | Some n \<Rightarrow> if 1 \<le> n \<and> n \<le> 50 then n else 1)"
    by (auto simp add: choose_instances_def split: option.splits)
  have b: "choose_instances (Typed (str_int n)) = (if 1 \<le> n \<and> n \<le> 50 then n else 1)"
  proof (cases "1 \<le> n \<and> n \<le> 50")
    case True
    then have "py_int (str_int n) = Some n" by (simp add: py_int_str_int_small)
    with True show ?thesis by (simp add: choose_instances_def strip_str_int)
  next
    case False
    then show ?thesis
      by (auto simp add: choose_instances_def strip_str_int py_int_str_int)
  qed
  have c: "choose_instances InputFailed = 1"
    by (simp add: choose_instances_def)
  have d: "int (length states) = choose_instances (reply env)
            \<and> map inst_id states = map (\<lambda>i. int i + 1) [0..<length states]"
    if "main_startup env = (evs, Started urls_list states)"
  proof -
    from main_startup_Started [OF that]
    have st: "states = map (\<lambda>i. new_InstanceState (int i + 1) (state_clock env i))
                    [0..<nat (choose_instances (reply env))]" by blast
    have len: "length states = nat (choose_instances (reply env))"
      by (simp add: st)
    have "map inst_id states = map (\<lambda>i. int i + 1) [0..<nat (choose_instances (reply env))]"
      by (simp add: st new_InstanceState_def comp_def)
    with len choose_instances_range [of "reply env"] show ?thesis by simp
  qed
  from a b c d show ?thesis by blast
qed

theorem instance_count_fallback_witness:
  "py_int (strip '' 7 '') = Some 7
   \<and> choose_instances (Typed '' 7 '') = 7
   \<and> str_int 51 = ''51''
   \<and> choose_instances (Typed ''51'') = 1
   \<and> main_startup
        \<lparr>url_file = Inr ''https://a.example'', reply = Typed ''2'', state_clock = real,
         driver_failure = None, launch_failure = None, relaunch_failure = None\<rparr>
      = ([Prompt ''[bold cyan]How many instances to run (1-50)? [/bold cyan]'',
          Print ''[yellow]Launching browser...[/yellow]'', LaunchBrowser,
          Print ''[green]Browser launched successfully![/green]''],
         Started [''https://a.example''] [new_InstanceState 1 0, new_InstanceState 2 1])
   \<and> int (length [new_InstanceState 1 0, new_InstanceState 2 1])
       = choose_instances (Typed ''2'')"
proof -
  let ?env = "\<lparr>url_file = Inr ''https://a.example'', reply = Typed ''2'',
                state_clock = real, driver_failure = None, launch_failure = None,
                relaunch_failure = None\<rparr>"
  let ?evs = "[Prompt ''[bold cyan]How many instances to run (1-50)? [/bold cyan]'',
          Print ''[yellow]Launching browser...[/yellow]'', LaunchBrowser,
          Print ''[green]Browser launched successfully![/green]'']"
  let ?states = "[new_InstanceState 1 0, new_InstanceState 2 1]"
  have p: "py_int (strip '' 7 '') = Some 7"
    by (simp add: py_int_def strip_def isspace_def int_space_def parse_unsigned_def
          int_max_str_digits_def is_digit_def digit_val_def)
  have s: "str_int 51 = ''51''"
    by (simp add: str_int_def digits_of.simps digit_char_def)
  have two: "choose_instances (Typed ''2'') = 2"
    by (simp add: choose_instances_def py_int_def strip_def isspace_def int_space_def
          parse_unsigned_def int_max_str_digits_def is_digit_def digit_val_def)
  have up: "[0..<2] = [0, Suc 0]"
    by (simp add: upt_rec numeral_2_eq_2)
  have m: "main_startup ?env = (?evs, Started [''https://a.example''] ?states)"
    by (simp add: main_startup_def splitlines_def is_linebreak_def strip_def isspace_def
          Let_def launch_browser_def two up)
  note t7 = instance_count_fallback [of "'' 7 ''" 51 ?env ?evs "[''https://a.example'']" ?states]
  from t7 p have c7: "choose_instances (Typed '' 7 '') = 7" by simp
  from t7 s have c51: "choose_instances (Typed ''51'') = 1" by simp
  from t7 m have len: "int (length ?states) = choose_instances (Typed ''2'')" by simp
  from p c7 s c51 m len show ?thesis by blast
qed

subsection \<open>Which failures end the process\<close>

lemma main_startup_exit_one:
  "exit_code (snd (main_startup env)) = Some 1 \<longleftrightarrow>
     (case url_file env of
        Inl e \<Rightarrow> True
      | Inr text \<Rightarrow>
          filter (\<lambda>ln. strip ln \<noteq> []) (splitlines text) = []
          \<or> (reply env \<noteq> Interrupted
              \<and> (driver_failure env \<noteq> None
                 \<or> (launch_failure env \<noteq> None \<and> relaunch_failure env \<noteq> None))))"
  by (auto simp add: main_startup_def exit_code_def launch_browser_def Let_def
        split: sum.splits option.splits prod.splits)

lemma runner_loop_forever:
  assumes "urls_list \<noteq> []"
    and "\<forall>j\<ge>k. outcome (envs j) \<noteq> Cancelled \<and> \<not> sleep_cancelled (envs j)"
  shows "runner_loop urls_list envs k td st = None"
proof (cases "runner_loop urls_list envs k td st")
  case None
  then show ?thesis .
next
  case (Some r)
  from runner_loop_Some [OF this] assms(1) obtain j where "k \<le> j"
    and "outcome (envs j) = Cancelled \<or> sleep_cancelled (envs j)" by blast
  with assms(2) show ?thesis by auto
qed

text \<open>
  C5, as the claim states it, fails: an empty URL file ends the process with exit code 1.
\<close>

theorem empty_url_file_is_fatal:
  "exit_code (snd (main_startup
     \<lparr>url_file = Inr '''', reply = Typed ''1'', state_clock = real, driver_failure = None,
      launch_failure = None, relaunch_failure = None\<rparr>)) = Some 1"
  by (simp add: main_startup_def exit_code_def splitlines_def)

text \<open>
  C5, amended. Failures at start-up are fatal: the process exits with code 1 exactly when
  \<^verbatim>\<open>urls.txt\<close> cannot be read, or has no non-empty line, or the browser driver or both
  launch attempts fail; a failed first launch alone is not fatal. Once the runners are
  started, no failure inside a pass is fatal and none reaches an exit code: the URL list
  is non-empty, and a runner whose passes only return or raise never leaves its loop.
\<close>

theorem only_startup_failures_are_fatal:
  "(exit_code (snd (main_startup env)) = Some 1 \<longleftrightarrow>
     (case url_file env of
        Inl e \<Rightarrow> True
      | Inr text \<Rightarrow>
          filter (\<lambda>ln. strip ln \<noteq> []) (splitlines text) = []
          \<or> (reply env \<noteq> Interrupted
              \<and> (driver_failure env \<noteq> None
                 \<or> (launch_failure env \<noteq> None \<and> relaunch_failure env \<noteq> None)))))
   \<and> (main_startup env = (evs, Started urls_list states) \<longrightarrow>
        exit_code (snd (main_startup env)) = None
        \<and> urls_list \<noteq> []
        \<and> ((\<forall>j\<ge>k. outcome (envs j) \<noteq> Cancelled \<and> \<not> sleep_cancelled (envs j))
             \<longrightarrow> runner_loop urls_list envs k td st = None))"
proof -
  have b: "exit_code (snd (main_startup env)) = None
        \<and> urls_list \<noteq> []
        \<and> ((\<forall>j\<ge>k. outcome (envs j) \<noteq> Cancelled \<and> \<not> sleep_cancelled (envs j))
             \<longrightarrow> runner_loop urls_list envs k td st = None)"
    if s: "main_startup env = (evs, Started urls_list states)"
  proof -
    from main_startup_Started [OF s] have ne: "urls_list \<noteq> []" by blast
    from s have "exit_code (snd (main_startup env)) = None"
      by (simp add: exit_code_def)
    with ne runner_loop_forever [OF ne, of k envs td st] show ?thesis by blast
  qed
  from main_startup_exit_one [of env] b show ?thesis by blast
qed

theorem only_startup_failures_are_fatal_witness:
  "main_startup
     \<lparr>url_file = Inr ''https://a.example'', reply = Typed ''1'', state_clock = real,
      driver_failure = None, launch_failure = Some ''no browser'', relaunch_failure = None\<rparr>
   = ([Prompt ''[bold cyan]How many instances to run (1-50)? [/bold cyan]'',
       Print ''[yellow]Launching browser...[/yellow]'', LaunchBrowser,
       Print ''[yellow]Installing Playwright browsers...[/yellow]'', InstallBrowsers,
       LaunchBrowser],
      Started [''https://a.example''] [new_InstanceState 1 0])
   \<and> runner_loop [''https://a.example'']
        (\<lambda>j. \<lparr>url_draw = j, clock = real j, run_step = None,
               outcome = (if even j then Raised ''timeout'' else Returned []),
               sleep_cancelled = False\<rparr>)
        0 0 (new_InstanceState 1 0) = None"
proof -
  let ?env = "\<lparr>url_file = Inr ''https://a.example'', reply = Typed ''1'',
                state_clock = real, driver_failure = None,
                launch_failure = Some ''no browser'', relaunch_failure = None\<rparr>"
  let ?evs = "[Prompt ''[bold cyan]How many instances to run (1-50)? [/bold cyan]'',
       Print ''[yellow]Launching browser...[/yellow]'', LaunchBrowser,
       Print ''[yellow]Installing Playwright browsers...[/yellow]'', InstallBrowsers,
       LaunchBrowser]"
  let ?envs = "\<lambda>j::nat. \<lparr>url_draw = j, clock = real j, run_step = None,
               outcome = (if even j then Raised ''timeout'' else Returned []),
               sleep_cancelled = False\<rparr>"
  have one: "choose_instances (Typed ''1'') = 1"
    by (simp add: choose_instances_def py_int_def strip_def isspace_def int_space_def
          parse_unsigned_def int_max_str_digits_def is_digit_def digit_val_def)
  have m: "main_startup ?env
             = (?evs, Started [''https://a.example''] [new_InstanceState 1 0])"
    by (simp add: main_startup_def splitlines_def is_linebreak_def strip_def isspace_def
          Let_def launch_browser_def one)
  have h: "\<forall>j\<ge>0. outcome (?envs j) \<noteq> Cancelled \<and> \<not> sleep_cancelled (?envs j)"
    by simp
  from only_startup_failures_are_fatal
    [of ?env ?evs "[''https://a.example'']" "[new_InstanceState 1 0]" 0 ?envs 0
        "new_InstanceState 1 0"] m h
  have "runner_loop [''https://a.example''] ?envs 0 0 (new_InstanceState 1 0) = None"
    by blast
  with m show ?thesis by blast
qed

section \<open>Properties of the profile generator\<close>

subsection \<open>No step of \<^verbatim>\<open>random_profile\<close> raises\<close>

lemma bind_err_Inr: "bind_err m f = Inr y \<longleftrightarrow> (\<exists>x. m = Inr x \<and> f x = Inr y)"
  by (cases m) (simp_all add: bind_err_def)

lemma bind_err_ok: "m = Inr x \<Longrightarrow> bind_err m f = f x"
  by (simp add: bind_err_def)

lemma DESKTOP_PROFILES_nonempty: "DESKTOP_PROFILES \<noteq> []"
  unfolding DESKTOP_PROFILES_def by (rule list.distinct)

lemma MOBILE_PROFILES_nonempty: "MOBILE_PROFILES \<noteq> []"
  unfolding MOBILE_PROFILES_def by (rule list.distinct)

lemma TABLET_PROFILES_nonempty: "TABLET_PROFILES \<noteq> []"
  unfolding TABLET_PROFILES_def by (rule list.distinct)

lemma LOCALE_TZS_nonempty: "LOCALE_TZS \<noteq> []"
  unfolding LOCALE_TZS_def by (rule list.distinct)

lemma device_type_cases:
  "random_choices_one [''desktop'', ''mobile'', ''tablet''] [70, 25, 5] r = Inr ''desktop''
   \<or> random_choices_one [''desktop'', ''mobile'', ''tablet''] [70, 25, 5] r = Inr ''mobile''
   \<or> random_choices_one [''desktop'', ''mobile'', ''tablet''] [70, 25, 5] r = Inr ''tablet''"
proof -
  have "r mod 100 < 100" by simp
  then have "r mod 100 - 70 - 25 < 5" by arith
  then show ?thesis by (simp add: random_choices_one_def)
qed

lemma pick_device_ok:
  "\<exists>d. pick_device g = Inr d
       \<and> d \<in> set DESKTOP_PROFILES \<union> set MOBILE_PROFILES \<union> set TABLET_PROFILES"
proof -
  from random_choice_nonempty [OF DESKTOP_PROFILES_nonempty, of "device_draw g"]
  obtain d1 where d1: "random_choice DESKTOP_PROFILES (device_draw g) = Inr d1"
    "d1 \<in> set DESKTOP_PROFILES" by blast
  from random_choice_nonempty [OF MOBILE_PROFILES_nonempty, of "device_draw g"]
  obtain d2 where d2: "random_choice MOBILE_PROFILES (device_draw g) = Inr d2"
    "d2 \<in> set MOBILE_PROFILES" by blast
  from random_choice_nonempty [OF TABLET_PROFILES_nonempty, of "device_draw g"]
  obtain d3 where d3: "random_choice TABLET_PROFILES (device_draw g) = Inr d3"
    "d3 \<in> set TABLET_PROFILES" by blast
  from device_type_cases [of "device_type_draw g"] show ?thesis
  proof (elim disjE)
    assume "random_choices_one [''desktop'', ''mobile'', ''tablet''] [70, 25, 5]
              (device_type_draw g) = Inr ''desktop''"
    with d1 show ?thesis by (simp add: pick_device_def bind_err_def)
  next
    assume "random_choices_one [''desktop'', ''mobile'', ''tablet''] [70, 25, 5]
              (device_type_draw g) = Inr ''mobile''"
    with d2 show ?thesis by (simp add: pick_device_def bind_err_def)
  next
    assume "random_choices_one [''desktop'', ''mobile'', ''tablet''] [70, 25, 5]
              (device_type_draw g) = Inr ''tablet''"
    with d3 show ?thesis by (simp add: pick_device_def bind_err_def)
  qed
qed

lemma gpu_options_index:
  "\<exists>vendor renderer.
     list_index gpu_options (m mod int (length gpu_options))
       = Inr [(''vendor'', vendor), (''renderer'', renderer)]"
proof -
  have "m mod 3 = 0 \<or> m mod 3 = 1 \<or> m mod 3 = 2" by arith
  then show ?thesis
    by (elim disjE) (simp_all add: gpu_options_def list_index_def)
qed

lemma generate_webgl_fingerprint_ok:
  "\<exists>vendor renderer. generate_webgl_fingerprint dd = Inr (webgl_dict vendor renderer)"
proof -
  from gpu_options_index [of "dict_get (device_memory_key dd) 8"]
  obtain vendor renderer where
    "list_index gpu_options (dict_get (device_memory_key dd) 8 mod int (length gpu_options))
       = Inr [(''vendor'', vendor), (''renderer'', renderer)]" by blast
  moreover have "\<exists>vendor renderer. webgl_dict a b = webgl_dict vendor renderer" for a b
    by blast
  ultimately show ?thesis
    by (simp add: generate_webgl_fingerprint_def Let_def bind_err_def dict_item_def)
qed

lemma create_stealth_scripts_ok: "\<exists>script. create_stealth_scripts md5 dd = Inr script"
proof -
  from generate_webgl_fingerprint_ok [of dd] obtain vendor renderer
    where "generate_webgl_fingerprint dd = Inr (webgl_dict vendor renderer)" by blast
  then show ?thesis
    by (simp add: create_stealth_scripts_def Let_def bind_err_def dict_item_def webgl_dict_def)
qed

lemma split_from_nonempty: "split_from sep acc s \<noteq> []"
  by (induction s arbitrary: acc) simp_all

lemma generate_realistic_headers_ok:
  "\<exists>headers. generate_realistic_headers locale ua = Inr headers"
proof -
  obtain x xs where "split locale CHR ''-'' = x # xs"
    using split_from_nonempty [of "CHR ''-''" "[]" "locale"]
    by (cases "split locale CHR ''-''") (simp_all add: split_def)
  then have "list_index (split locale CHR ''-'') 0 = Inr x"
    by (simp add: list_index_def)
  then show ?thesis
    by (simp add: generate_realistic_headers_def bind_err_def Let_def)
qed

lemma generate_advanced_behavioral_patterns_ok:
  "\<exists>patterns. generate_advanced_behavioral_patterns u r = Inr patterns
     \<and> map fst patterns = [''mouse_patterns'', ''keyboard_patterns'', ''scroll_patterns'',
                            ''focus_patterns'', ''timing_patterns'']"
  by (simp add: generate_advanced_behavioral_patterns_def random_choice_def bind_err_def)

lemma random_profile_ok:
  "\<exists>p. random_profile md5 g = Inr p
     \<and> map fst p =
         [''user_agent'', ''viewport'', ''device_scale_factor'', ''is_mobile'', ''has_touch'',
          ''platform'', ''device_memory'', ''hardware_concurrency'', ''max_touch_points'',
          ''locale'', ''timezone'', ''timezone_id'', ''color_scheme'', ''reduced_motion'',
          ''headers'', ''canvas_fingerprint'', ''webgl_fingerprint'', ''stealth_script'',
          ''tls_fingerprint'', ''advanced_behavioral'', ''modern_evasion'']"
proof -
  from pick_device_ok [of g] obtain device where 1: "pick_device g = Inr device" by blast
  from random_choice_nonempty [OF LOCALE_TZS_nonempty, of "locale_draw g"]
  obtain loc tz where 2: "random_choice LOCALE_TZS (locale_draw g) = Inr (loc, tz)"
    by (metis surj_pair)
  have 3: "\<exists>c. random_choice [''light'', ''dark'', ''no-preference''] (color_draw g) = Inr c"
    by (simp add: random_choice_def)
  have 4: "\<exists>m. random_choice [''no-preference'', ''reduce''] (motion_draw g) = Inr m"
    by (simp add: random_choice_def)
  from 3 obtain c where 3: "random_choice [''light'', ''dark'', ''no-preference''] (color_draw g) = Inr c"
    by blast
  from 4 obtain m where 4: "random_choice [''no-preference'', ''reduce''] (motion_draw g) = Inr m"
    by blast
  from generate_realistic_headers_ok [of loc "user_agent device"]
  obtain headers where 5: "generate_realistic_headers loc (user_agent device) = Inr headers"
    by blast
  from generate_webgl_fingerprint_ok obtain vendor renderer where
    6: "generate_webgl_fingerprint
          (no_keys\<lparr>platform_key := Some (platform device),
             device_memory_key := Some (device_memory device),
             hardware_concurrency_key := Some (hardware_concurrency device),
             is_mobile_key := Some (is_mobile device)\<rparr>) = Inr (webgl_dict vendor renderer)"
    by blast
  from create_stealth_scripts_ok obtain script where
    7: "create_stealth_scripts md5
          (no_keys\<lparr>platform_key := Some (platform device),
             device_memory_key := Some (device_memory device),
             hardware_concurrency_key := Some (hardware_concurrency device),
             max_touch_points_key := Some (max_touch_points device),
             viewport_key := Some (viewport device)\<rparr>) = Inr script"
    by blast
  from generate_advanced_behavioral_patterns_ok obtain patterns where
    8: "generate_advanced_behavioral_patterns (unit_draws g) (int_draws g) = Inr patterns"
    by blast
  show ?thesis
    unfolding random_profile_def
    by (simp add: bind_err_ok [OF 1] bind_err_ok [OF 2] bind_err_ok [OF 3] bind_err_ok [OF 4]
          bind_err_ok [OF 5] bind_err_ok [OF 6] bind_err_ok [OF 7] bind_err_ok [OF 8])
qed

lemma random_profile_fields:
  assumes "random_profile md5 g = Inr p"
  shows "\<exists>device loc tz webgl.
      pick_device g = Inr device
    \<and> random_choice LOCALE_TZS (locale_draw g) = Inr (loc, tz)
    \<and> generate_webgl_fingerprint
          (no_keys\<lparr>platform_key := Some (platform device),
             device_memory_key := Some (device_memory device),
             hardware_concurrency_key := Some (hardware_concurrency device),
             is_mobile_key := Some (is_mobile device)\<rparr>) = Inr webgl
    \<and> dict_item p ''platform'' = Inr (PStr (platform device))
    \<and> dict_item p ''device_memory'' = Inr (PInt (device_memory device))
    \<and> dict_item p ''hardware_concurrency'' = Inr (PInt (hardware_concurrency device))
    \<and> dict_item p ''is_mobile'' = Inr (PBool (is_mobile device))
    \<and> dict_item p ''locale'' = Inr (PStr loc)
    \<and> dict_item p ''timezone'' = Inr (PStr tz)
    \<and> dict_item p ''timezone_id'' = Inr (PStr tz)
    \<and> dict_item p ''canvas_fingerprint''
        = Inr (PStr (generate_canvas_fingerprint md5
            (no_keys\<lparr>platform_key := Some (platform device),
               device_memory_key := Some (device_memory device),
               hardware_concurrency_key := Some (hardware_concurrency device)\<rparr>)))
    \<and> dict_item p ''webgl_fingerprint'' = Inr (str_dict webgl)"
  using assms
  by (auto simp add: random_profile_def bind_err_Inr dict_item_def)

subsection \<open>Evaluating the device choice\<close>

lemma length_DESKTOP_PROFILES: "length DESKTOP_PROFILES = 79"
  by (simp add: DESKTOP_PROFILES_def)

lemma pick_device_desktop:
  assumes "device_type_draw g mod 100 < 70"
  shows "pick_device g = Inr (DESKTOP_PROFILES ! (device_draw g mod 79))"
  using assms DESKTOP_PROFILES_nonempty
  by (simp add: pick_device_def random_choices_one_def random_choice_def bind_err_def
        length_DESKTOP_PROFILES)

lemma desktop_entry_0:
  "platform (DESKTOP_PROFILES ! 0) = ''Win32'' \<and> device_memory (DESKTOP_PROFILES ! 0) = 8
   \<and> hardware_concurrency (DESKTOP_PROFILES ! 0) = 8 \<and> \<not> is_mobile (DESKTOP_PROFILES ! 0)"
  by (simp add: DESKTOP_PROFILES_def)

lemma desktop_entry_4:
  "platform (DESKTOP_PROFILES ! 4) = ''Win32'' \<and> device_memory (DESKTOP_PROFILES ! 4) = 8
   \<and> hardware_concurrency (DESKTOP_PROFILES ! 4) = 4 \<and> \<not> is_mobile (DESKTOP_PROFILES ! 4)"
  by (simp add: DESKTOP_PROFILES_def)

lemma desktop_entry_9:
  "platform (DESKTOP_PROFILES ! 9) = ''Win32'' \<and> device_memory (DESKTOP_PROFILES ! 9) = 8
   \<and> hardware_concurrency (DESKTOP_PROFILES ! 9) = 4 \<and> \<not> is_mobile (DESKTOP_PROFILES ! 9)"
  by (simp add: DESKTOP_PROFILES_def)

lemma locale_entry_5: "LOCALE_TZS ! 5 = (''de-DE'', ''Europe/Berlin'')"
  by (simp add: LOCALE_TZS_def)

lemma length_LOCALE_TZS: "length LOCALE_TZS = 35"
  by (simp add: LOCALE_TZS_def)

subsection \<open>Consistency of the generated profile\<close>

text \<open>
  C4. In every profile that \<^verbatim>\<open>random_profile\<close> returns, \<^verbatim>\<open>platform\<close>, \<^verbatim>\<open>device_memory\<close> and
  \<^verbatim>\<open>hardware_concurrency\<close> are the three fields of one and the same entry of
  \<^verbatim>\<open>DESKTOP_PROFILES\<close>, \<^verbatim>\<open>MOBILE_PROFILES\<close> or \<^verbatim>\<open>TABLET_PROFILES\<close>.
\<close>

theorem profile_triple_from_one_entry:
  assumes "random_profile md5 g = Inr p"
  shows "\<exists>d. d \<in> set DESKTOP_PROFILES \<union> set MOBILE_PROFILES \<union> set TABLET_PROFILES
           \<and> dict_item p ''platform'' = Inr (PStr (platform d))
           \<and> dict_item p ''device_memory'' = Inr (PInt (device_memory d))
           \<and> dict_item p ''hardware_concurrency'' = Inr (PInt (hardware_concurrency d))"
proof -
  from random_profile_fields [OF assms] obtain device where
    d: "pick_device g = Inr device"
    and f: "dict_item p ''platform'' = Inr (PStr (platform device))"
      "dict_item p ''device_memory'' = Inr (PInt (device_memory device))"
      "dict_item p ''hardware_concurrency'' = Inr (PInt (hardware_concurrency device))"
    by blast
  from pick_device_ok [of g] d
  have "device \<in> set DESKTOP_PROFILES \<union> set MOBILE_PROFILES \<union> set TABLET_PROFILES"
    by auto
  with f show ?thesis by blast
qed

theorem profile_triple_from_one_entry_witness:
  "\<exists>p d. random_profile (\<lambda>s. s)
            \<lparr>device_type_draw = 0, device_draw = 0, locale_draw = 0, color_draw = 0,
             motion_draw = 0, unit_draws = (\<lambda>k. 0), int_draws = (\<lambda>k. 0)\<rparr> = Inr p
         \<and> d \<in> set DESKTOP_PROFILES \<union> set MOBILE_PROFILES \<union> set TABLET_PROFILES
         \<and> dict_item p ''platform'' = Inr (PStr (platform d))
         \<and> dict_item p ''device_memory'' = Inr (PInt (device_memory d))
         \<and> dict_item p ''hardware_concurrency'' = Inr (PInt (hardware_concurrency d))
         \<and> dict_item p ''platform'' = Inr (PStr ''Win32'')
         \<and> dict_item p ''device_memory'' = Inr (PInt 8)
         \<and> dict_item p ''hardware_concurrency'' = Inr (PInt 8)"
proof -
  let ?g = "\<lparr>device_type_draw = 0, device_draw = 0, locale_draw = 0, color_draw = 0,
             motion_draw = 0, unit_draws = (\<lambda>k. 0::real), int_draws = (\<lambda>k. 0::nat)\<rparr>"
  from random_profile_ok [of "\<lambda>s. s" ?g] obtain p
    where h: "random_profile (\<lambda>s. s) ?g = Inr p" by blast
  from profile_triple_from_one_entry [OF h] obtain d where
    d: "d \<in> set DESKTOP_PROFILES \<union> set MOBILE_PROFILES \<union> set TABLET_PROFILES"
       "dict_item p ''platform'' = Inr (PStr (platform d))"
       "dict_item p ''device_memory'' = Inr (PInt (device_memory d))"
       "dict_item p ''hardware_concurrency'' = Inr (PInt (hardware_concurrency d))"
    by blast
  have "pick_device ?g = Inr (DESKTOP_PROFILES ! 0)"
    using pick_device_desktop [of ?g] by simp
  with random_profile_fields [OF h] desktop_entry_0
  have "dict_item p ''platform'' = Inr (PStr ''Win32'')"
       "dict_item p ''device_memory'' = Inr (PInt 8)"
       "dict_item p ''hardware_concurrency'' = Inr (PInt 8)"
    by auto
  with h d show ?thesis by blast
qed

text \<open>
  C6. \<^verbatim>\<open>random_profile\<close> succeeds for every outcome of its random choices, and the
  dictionary it returns has all its keys; every branch of
  \<^verbatim>\<open>generate_webgl_fingerprint\<close> returns a dictionary with its four keys.
\<close>

theorem random_profile_always_succeeds:
  "(\<exists>p. random_profile md5 g = Inr p
       \<and> map fst p =
           [''user_agent'', ''viewport'', ''device_scale_factor'', ''is_mobile'', ''has_touch'',
            ''platform'', ''device_memory'', ''hardware_concurrency'', ''max_touch_points'',
            ''locale'', ''timezone'', ''timezone_id'', ''color_scheme'', ''reduced_motion'',
            ''headers'', ''canvas_fingerprint'', ''webgl_fingerprint'', ''stealth_script'',
            ''tls_fingerprint'', ''advanced_behavioral'', ''modern_evasion''])
   \<and> (\<exists>w. generate_webgl_fingerprint dd = Inr w
         \<and> map fst w = [''vendor'', ''renderer'', ''version'', ''shading_language_version''])"
proof -
  from generate_webgl_fingerprint_ok [of dd] obtain vendor renderer
    where "generate_webgl_fingerprint dd = Inr (webgl_dict vendor renderer)" by blast
  then have "\<exists>w. generate_webgl_fingerprint dd = Inr w
         \<and> map fst w = [''vendor'', ''renderer'', ''version'', ''shading_language_version'']"
    by (simp add: webgl_dict_def)
  with random_profile_ok [of md5 g] show ?thesis by blast
qed

theorem random_profile_always_succeeds_witness:
  "\<exists>p. random_profile (\<lambda>s. s)
          \<lparr>device_type_draw = 0, device_draw = 4, locale_draw = 5, color_draw = 1,
           motion_draw = 1, unit_draws = (\<lambda>k. 0), int_draws = (\<lambda>k. k)\<rparr> = Inr p
       \<and> length p = 21
       \<and> dict_item p ''locale'' = Inr (PStr ''de-DE'')
       \<and> dict_item p ''canvas_fingerprint'' = Inr (PStr ''Win32_8_4'')"
proof -
  let ?g = "\<lparr>device_type_draw = 0, device_draw = 4, locale_draw = 5, color_draw = 1,
           motion_draw = 1, unit_draws = (\<lambda>k. 0::real), int_draws = (\<lambda>k::nat. k)\<rparr>"
  from random_profile_always_succeeds [of "\<lambda>s. s" ?g no_keys]
  have "\<exists>p. random_profile (\<lambda>s. s) ?g = Inr p
       \<and> map fst p =
           [''user_agent'', ''viewport'', ''device_scale_factor'', ''is_mobile'', ''has_touch'',
            ''platform'', ''device_memory'', ''hardware_concurrency'', ''max_touch_points'',
            ''locale'', ''timezone'', ''timezone_id'', ''color_scheme'', ''reduced_motion'',
            ''headers'', ''canvas_fingerprint'', ''webgl_fingerprint'', ''stealth_script'',
            ''tls_fingerprint'', ''advanced_behavioral'', ''modern_evasion'']"
    by (rule conjunct1)
  then obtain p
    where h: "random_profile (\<lambda>s. s) ?g = Inr p"
      and k: "map fst p =
           [''user_agent'', ''viewport'', ''device_scale_factor'', ''is_mobile'', ''has_touch'',
            ''platform'', ''device_memory'', ''hardware_concurrency'', ''max_touch_points'',
            ''locale'', ''timezone'', ''timezone_id'', ''color_scheme'', ''reduced_motion'',
            ''headers'', ''canvas_fingerprint'', ''webgl_fingerprint'', ''stealth_script'',
            ''tls_fingerprint'', ''advanced_behavioral'', ''modern_evasion'']"
    by (elim exE conjE)
  from k have "length (map fst p) = 21" by simp
  then have len: "length p = 21" by simp
  have dev: "pick_device ?g = Inr (DESKTOP_PROFILES ! 4)"
    using pick_device_desktop [of ?g] by simp
  have loc: "random_choice LOCALE_TZS (locale_draw ?g) = Inr (''de-DE'', ''Europe/Berlin'')"
    using LOCALE_TZS_nonempty
    by (simp add: random_choice_def length_LOCALE_TZS locale_entry_5)
  have canvas: "generate_canvas_fingerprint (\<lambda>s. s)
          (no_keys\<lparr>platform_key := Some ''Win32'', device_memory_key := Some 8,
             hardware_concurrency_key := Some 4\<rparr>) = ''Win32_8_4''"
    by (simp add: generate_canvas_fingerprint_def no_keys_def dict_get_def str_int_def
          digits_of.simps digit_char_def)
  from random_profile_fields [OF h] dev loc desktop_entry_4 canvas
  have "dict_item p ''locale'' = Inr (PStr ''de-DE'')"
       "dict_item p ''canvas_fingerprint'' = Inr (PStr ''Win32_8_4'')"
    by auto
  with h len show ?thesis by blast
qed

text \<open>
  C7. In every profile that \<^verbatim>\<open>random_profile\<close> returns, \<^verbatim>\<open>locale\<close> and \<^verbatim>\<open>timezone\<close> are the
  two components of one entry of \<^verbatim>\<open>LOCALE_TZS\<close>, and \<^verbatim>\<open>timezone_id\<close> equals \<^verbatim>\<open>timezone\<close>.
\<close>

theorem locale_timezone_from_one_entry:
  assumes "random_profile md5 g = Inr p"
  shows "\<exists>loc tz. (loc, tz) \<in> set LOCALE_TZS
           \<and> dict_item p ''locale'' = Inr (PStr loc)
           \<and> dict_item p ''timezone'' = Inr (PStr tz)
           \<and> dict_item p ''timezone_id'' = Inr (PStr tz)
           \<and> dict_item p ''timezone_id'' = dict_item p ''timezone''"
proof -
  from random_profile_fields [OF assms] obtain loc tz where
    c: "random_choice LOCALE_TZS (locale_draw g) = Inr (loc, tz)"
    and f: "dict_item p ''locale'' = Inr (PStr loc)"
      "dict_item p ''timezone'' = Inr (PStr tz)"
      "dict_item p ''timezone_id'' = Inr (PStr tz)"
    by blast
  from random_choice_nonempty [OF LOCALE_TZS_nonempty, of "locale_draw g"] c
  have "(loc, tz) \<in> set LOCALE_TZS" by auto
  with f show ?thesis by auto
qed

theorem locale_timezone_from_one_entry_witness:
  "\<exists>p. random_profile (\<lambda>s. s)
          \<lparr>device_type_draw = 0, device_draw = 0, locale_draw = 40, color_draw = 0,
           motion_draw = 0, unit_draws = (\<lambda>k. 0), int_draws = (\<lambda>k. 0)\<rparr> = Inr p
       \<and> (''de-DE'', ''Europe/Berlin'') \<in> set LOCALE_TZS
       \<and> dict_item p ''locale'' = Inr (PStr ''de-DE'')
       \<and> dict_item p ''timezone'' = Inr (PStr ''Europe/Berlin'')
       \<and> dict_item p ''timezone_id'' = dict_item p ''timezone''"
proof -
  let ?g = "\<lparr>device_type_draw = 0, device_draw = 0, locale_draw = 40, color_draw = 0,
           motion_draw = 0, unit_draws = (\<lambda>k. 0::real), int_draws = (\<lambda>k. 0::nat)\<rparr>"
  from random_profile_ok [of "\<lambda>s. s" ?g] obtain p
    where h: "random_profile (\<lambda>s. s) ?g = Inr p" by blast
  from locale_timezone_from_one_entry [OF h]
  have same: "dict_item p ''timezone_id'' = dict_item p ''timezone''" by blast
  have loc: "random_choice LOCALE_TZS (locale_draw ?g) = Inr (''de-DE'', ''Europe/Berlin'')"
    using LOCALE_TZS_nonempty
    by (simp add: random_choice_def length_LOCALE_TZS locale_entry_5)
  from random_choice_nonempty [OF LOCALE_TZS_nonempty, of "locale_draw ?g"] loc
  have mem: "(''de-DE'', ''Europe/Berlin'') \<in> set LOCALE_TZS" by auto
  from random_profile_fields [OF h] loc
  have "dict_item p ''locale'' = Inr (PStr ''de-DE'')"
       "dict_item p ''timezone'' = Inr (PStr ''Europe/Berlin'')"
    by auto
  with h mem same show ?thesis by blast
qed

text \<open>
  C10. The canvas and WebGL fingerprints of a profile are functions of the chosen device:
  two profiles whose devices agree on \<^verbatim>\<open>platform\<close>, \<^verbatim>\<open>device_memory\<close> and
  \<^verbatim>\<open>hardware_concurrency\<close> have the same \<^verbatim>\<open>canvas_fingerprint\<close>, namely the digest of
  these three values joined by underscores, and when the devices also agree on
  \<^verbatim>\<open>is_mobile\<close> the same \<^verbatim>\<open>webgl_fingerprint\<close>, whatever the other random draws are.
\<close>

theorem fingerprints_determined_by_device:
  assumes "random_profile md5 g1 = Inr p1" and "random_profile md5 g2 = Inr p2"
    and "pick_device g1 = Inr d1" and "pick_device g2 = Inr d2"
    and "platform d1 = platform d2"
    and "device_memory d1 = device_memory d2"
    and "hardware_concurrency d1 = hardware_concurrency d2"
  shows "dict_item p1 ''canvas_fingerprint'' = dict_item p2 ''canvas_fingerprint''
       \<and> dict_item p1 ''canvas_fingerprint''
           = Inr (PStr (md5 (platform d1 @ ''_'' @ str_int (device_memory d1) @ ''_''
                             @ str_int (hardware_concurrency d1))))
       \<and> (is_mobile d1 = is_mobile d2
            \<longrightarrow> dict_item p1 ''webgl_fingerprint'' = dict_item p2 ''webgl_fingerprint'')"
proof -
  from random_profile_fields [OF assms(1)] assms(3) obtain w1 where
    c1: "dict_item p1 ''canvas_fingerprint''
        = Inr (PStr (generate_canvas_fingerprint md5
            (no_keys\<lparr>platform_key := Some (platform d1),
               device_memory_key := Some (device_memory d1),
               hardware_concurrency_key := Some (hardware_concurrency d1)\<rparr>)))"
    and g1: "generate_webgl_fingerprint
          (no_keys\<lparr>platform_key := Some (platform d1),
             device_memory_key := Some (device_memory d1),
             hardware_concurrency_key := Some (hardware_concurrency d1),
             is_mobile_key := Some (is_mobile d1)\<rparr>) = Inr w1"
    and w1: "dict_item p1 ''webgl_fingerprint'' = Inr (str_dict w1)"
    by auto
  from random_profile_fields [OF assms(2)] assms(4) obtain w2 where
    c2: "dict_item p2 ''canvas_fingerprint''
        = Inr (PStr (generate_canvas_fingerprint md5
            (no_keys\<lparr>platform_key := Some (platform d2),
               device_memory_key := Some (device_memory d2),
               hardware_concurrency_key := Some (hardware_concurrency d2)\<rparr>)))"
    and g2: "generate_webgl_fingerprint
          (no_keys\<lparr>platform_key := Some (platform d2),
             device_memory_key := Some (device_memory d2),
             hardware_concurrency_key := Some (hardware_concurrency d2),
             is_mobile_key := Some (is_mobile d2)\<rparr>) = Inr w2"
    and w2: "dict_item p2 ''webgl_fingerprint'' = Inr (str_dict w2)"
    by auto
  from c1 c2 assms(5-7)
  have a: "dict_item p1 ''canvas_fingerprint'' = dict_item p2 ''canvas_fingerprint''"
    by simp
  from c1 have b: "dict_item p1 ''canvas_fingerprint''
           = Inr (PStr (md5 (platform d1 @ ''_'' @ str_int (device_memory d1) @ ''_''
                             @ str_int (hardware_concurrency d1))))"
    by (simp add: generate_canvas_fingerprint_def no_keys_def dict_get_def)
  have c: "dict_item p1 ''webgl_fingerprint'' = dict_item p2 ''webgl_fingerprint''"
    if "is_mobile d1 = is_mobile d2"
  proof -
    from g1 g2 assms(5-7) that have "w1 = w2" by simp
    with w1 w2 show ?thesis by simp
  qed
  from a b c show ?thesis by blast
qed

theorem fingerprints_determined_by_device_witness:
  "\<exists>p1 p2.
     random_profile (\<lambda>s. s)
       \<lparr>device_type_draw = 0, device_draw = 4, locale_draw = 0, color_draw = 0,
        motion_draw = 0, unit_draws = (\<lambda>k. 0), int_draws = (\<lambda>k. 0)\<rparr> = Inr p1
   \<and> random_profile (\<lambda>s. s)
       \<lparr>device_type_draw = 69, device_draw = 9, locale_draw = 5, color_draw = 1,
        motion_draw = 1, unit_draws = (\<lambda>k. 1 / 2), int_draws = (\<lambda>k. k)\<rparr> = Inr p2
   \<and> platform (DESKTOP_PROFILES ! 4) = platform (DESKTOP_PROFILES ! 9)
   \<and> device_memory (DESKTOP_PROFILES ! 4) = device_memory (DESKTOP_PROFILES ! 9)
   \<and> hardware_concurrency (DESKTOP_PROFILES ! 4) = hardware_concurrency (DESKTOP_PROFILES ! 9)
   \<and> dict_item p1 ''canvas_fingerprint'' = dict_item p2 ''canvas_fingerprint''
   \<and> dict_item p1 ''canvas_fingerprint'' = Inr (PStr ''Win32_8_4'')
   \<and> dict_item p1 ''webgl_fingerprint'' = dict_item p2 ''webgl_fingerprint''"
proof -
  let ?g1 = "\<lparr>device_type_draw = 0, device_draw = 4, locale_draw = 0, color_draw = 0,
        motion_draw = 0, unit_draws = (\<lambda>k. 0::real), int_draws = (\<lambda>k. 0::nat)\<rparr>"
  let ?g2 = "\<lparr>device_type_draw = 69, device_draw = 9, locale_draw = 5, color_draw = 1,
        motion_draw = 1, unit_draws = (\<lambda>k. 1 / 2 :: real), int_draws = (\<lambda>k::nat. k)\<rparr>"
  from random_profile_ok [of "\<lambda>s. s" ?g1] obtain p1
    where h1: "random_profile (\<lambda>s. s) ?g1 = Inr p1" by blast
  from random_profile_ok [of "\<lambda>s. s" ?g2] obtain p2
    where h2: "random_profile (\<lambda>s. s) ?g2 = Inr p2" by blast
  have d1: "pick_device ?g1 = Inr (DESKTOP_PROFILES ! 4)"
    using pick_device_desktop [of ?g1] by simp
  have d2: "pick_device ?g2 = Inr (DESKTOP_PROFILES ! 9)"
    using pick_device_desktop [of ?g2] by simp
  have e1: "platform (DESKTOP_PROFILES ! 4) = platform (DESKTOP_PROFILES ! 9)"
    and e2: "device_memory (DESKTOP_PROFILES ! 4) = device_memory (DESKTOP_PROFILES ! 9)"
    and e3: "hardware_concurrency (DESKTOP_PROFILES ! 4)
               = hardware_concurrency (DESKTOP_PROFILES ! 9)"
    and e4: "is_mobile (DESKTOP_PROFILES ! 4) = is_mobile (DESKTOP_PROFILES ! 9)"
    using desktop_entry_4 desktop_entry_9 by simp_all
  note t = fingerprints_determined_by_device [OF h1 h2 d1 d2 e1 e2 e3]
  from t have a: "dict_item p1 ''canvas_fingerprint'' = dict_item p2 ''canvas_fingerprint''"
    by blast
  from t have "dict_item p1 ''canvas_fingerprint''
           = Inr (PStr (platform (DESKTOP_PROFILES ! 4) @ ''_''
                        @ str_int (device_memory (DESKTOP_PROFILES ! 4)) @ ''_''
                        @ str_int (hardware_concurrency (DESKTOP_PROFILES ! 4))))"
    by (rule conjunct1 [OF conjunct2])
  with desktop_entry_4 have b: "dict_item p1 ''canvas_fingerprint'' = Inr (PStr ''Win32_8_4'')"
    by (simp add: str_int_def digits_of.simps digit_char_def)
  from t e4 have c: "dict_item p1 ''webgl_fingerprint'' = dict_item p2 ''webgl_fingerprint''"
    by blast
  from h1 h2 e1 e2 e3 a b c show ?thesis by blast
qed

end
